theory Spec2Isabelle
  imports Main
begin

section \<open>The request bridge of \<^verbatim>\<open>src/server.ts\<close>\<close>

text \<open>
  The adapter is one TypeScript module. Its functions are embedded one by one:
  \<^verbatim>\<open>purgeRequireCache\<close>, \<^verbatim>\<open>createRemixHeaders\<close>, \<^verbatim>\<open>createRemixRequest\<close>,
  \<^verbatim>\<open>sendRemixResponse\<close> and the handler that \<^verbatim>\<open>createRequestHandler\<close> returns.
  JavaScript strings are lists of characters, a thrown exception is the left summand of a
  sum, and every object the handler mutates (the outbound response, the abort controllers,
  Node's \<^verbatim>\<open>require.cache\<close>) is a field of an explicit state that is passed through.
  The libraries the module calls (hyper-express, live-directory, @remix-run/node) are not
  part of the repository; each is represented by the part of its interface the module
  uses, and the comment at each such definition says so.
\<close>

subsection \<open>Strings\<close>

text \<open>\<^verbatim>\<open>String.prototype.startsWith\<close>: the second string is a prefix of the first.\<close>

fun startsWith :: "string \<Rightarrow> string \<Rightarrow> bool" where
  "startsWith s [] = True"
| "startsWith [] (p # ps) = False"
| "startsWith (c # cs) (p # ps) = (c = p \<and> startsWith cs ps)"

text \<open>
  \<^verbatim>\<open>String.prototype.replace\<close> with a string pattern: only the first occurrence of
  the pattern is replaced (the empty pattern occurs at position 0).
\<close>

fun replace :: "string \<Rightarrow> string \<Rightarrow> string \<Rightarrow> string" where
  "replace [] pat rep = (if pat = [] then rep else [])"
| "replace (c # cs) pat rep =
     (if startsWith (c # cs) pat then rep @ drop (length pat) (c # cs)
      else c # replace cs pat rep)"

text \<open>
  The decimal numeral of a non-negative integer, which is what a template literal
  \<^verbatim>\<open>`${n}`\<close> yields for such a number.
\<close>

definition digit :: "nat \<Rightarrow> char" where
  "digit d = ''0123456789'' ! d"

fun numeral_string :: "nat \<Rightarrow> string" where
  "numeral_string n =
     (if n < 10 then [digit n] else numeral_string (n div 10) @ [digit (n mod 10)])"

declare numeral_string.simps [simp del]

text \<open>
  \<^verbatim>\<open>String.prototype.toLowerCase\<close> on the letters A to Z; header names have no other
  upper-case characters.
\<close>

definition toLowerCase_char :: "char \<Rightarrow> char" where
  "toLowerCase_char c =
     (case map_of (zip ''ABCDEFGHIJKLMNOPQRSTUVWXYZ'' ''abcdefghijklmnopqrstuvwxyz'') c of
        Some l \<Rightarrow> l
      | None \<Rightarrow> c)"

definition toLowerCase :: "string \<Rightarrow> string" where
  "toLowerCase s = map toLowerCase_char s"

text \<open>\<^verbatim>\<open>String.prototype.toUpperCase\<close> on the letters a to z.\<close>

definition toUpperCase_char :: "char \<Rightarrow> char" where
  "toUpperCase_char c =
     (case map_of (zip ''abcdefghijklmnopqrstuvwxyz'' ''ABCDEFGHIJKLMNOPQRSTUVWXYZ'') c of
        Some u \<Rightarrow> u
      | None \<Rightarrow> c)"

definition toUpperCase :: "string \<Rightarrow> string" where
  "toUpperCase s = map toUpperCase_char s"

subsection \<open>Values that cross the bridge\<close>

text \<open>A thrown value (the rejection reason of a promise as well).\<close>

datatype error = Error string

text \<open>
  A readable byte stream: the chunks it yields, and whether reading then ends normally or
  fails with an error.
\<close>

datatype ending = Done | Failed error

datatype readable = Readable "string list" ending

text \<open>
  The value of one entry of the inbound header object: a string, an array of strings,
  or \<^verbatim>\<open>undefined\<close>.
\<close>

datatype header_value = Single string | Multi "string list" | Undefined

text \<open>
  The inbound request of the host server. \<^verbatim>\<open>headers\<close> is the list of entries of the
  header object in property order (\<^verbatim>\<open>Object.entries\<close>); \<^verbatim>\<open>stream\<close> is the request
  read as a stream of body bytes.
\<close>

record in_request =
  protocol :: string
  hostname :: string
  url :: string
  path :: string
  http_method :: string
  headers :: "(string \<times> header_value) list"
  stream :: readable

text \<open>
  Modelled from the spec: the header collection of the rendering engine
  (\<^verbatim>\<open>NodeHeaders\<close> of @remix-run/node) is not in the repository. It is an ordered
  sequence of name/value entries; \<^verbatim>\<open>append\<close> adds an entry, \<^verbatim>\<open>set\<close> removes the
  entries of that name and adds one. Names are case-insensitive and stored in lower case.
\<close>

type_synonym node_headers = "(string \<times> string) list"

definition headers_append :: "string \<Rightarrow> string \<Rightarrow> node_headers \<Rightarrow> node_headers" where
  "headers_append name v h = h @ [(toLowerCase name, v)]"

definition headers_set :: "string \<Rightarrow> string \<Rightarrow> node_headers \<Rightarrow> node_headers" where
  "headers_set name v h = filter (\<lambda>(n, _). n \<noteq> toLowerCase name) h @ [(toLowerCase name, v)]"

text \<open>
  The \<^verbatim>\<open>init\<close> object of lines 140-148. \<^verbatim>\<open>init_signal\<close> is the abort controller
  whose signal it holds; \<^verbatim>\<open>init_body\<close> is \<^verbatim>\<open>None\<close> when \<^verbatim>\<open>init.body\<close> is not
  assigned.
\<close>

record request_init =
  init_method :: string
  init_headers :: node_headers
  init_signal :: nat
  init_body :: "readable option"

text \<open>
  The canonical request, an object of class \<^verbatim>\<open>NodeRequest\<close>: its URL as parsed, its
  method, headers and body, and the abort controller whose signal it carries.
\<close>

record remix_request =
  req_url :: string
  req_method :: string
  req_headers :: node_headers
  req_signal :: nat
  req_body :: "readable option"

text \<open>
  The canonical response (\<^verbatim>\<open>NodeResponse\<close>). \<^verbatim>\<open>res_headers\<close> is what
  \<^verbatim>\<open>headers.raw()\<close> returns: each header name with the list of its values.
  \<^verbatim>\<open>res_body\<close> is \<^verbatim>\<open>None\<close> for a null body.
\<close>

record node_response =
  status :: nat
  statusText :: string
  res_headers :: "(string \<times> string list) list"
  res_body :: "readable option"

subsection \<open>The outbound response\<close>

text \<open>
  The outbound response of the host server is represented by the calls made on it, oldest
  first. \<^verbatim>\<open>Header name value overwrite\<close> is \<^verbatim>\<open>response.header(name, value, overwrite)\<close>,
  the flag being \<^verbatim>\<open>None\<close> when the call passes two arguments. \<^verbatim>\<open>Write\<close>,
  \<^verbatim>\<open>End\<close> and \<^verbatim>\<open>Destroy\<close> are the calls on its writable side, \<^verbatim>\<open>Pipe\<close> is a file
  stream piped into it, \<^verbatim>\<open>On\<close> registers an event listener.
\<close>

datatype listener = Abort nat

datatype call =
    Status nat string
  | Header string string "bool option"
  | Send "string option"
  | Pipe string
  | On string listener
  | Write string
  | End
  | Destroy error

text \<open>
  Modelled from the spec: \<^verbatim>\<open>Response.header\<close> of hyper-express is not in the
  repository. The header lines a sequence of calls leaves on the response: the host
  server replaces the values of a name unless the call passes \<^verbatim>\<open>false\<close> as third
  argument, in which case the value is added as a separate header to those already there.
\<close>

fun apply_header :: "call \<Rightarrow> (string \<times> string) list \<Rightarrow> (string \<times> string) list" where
  "apply_header (Header name v overwrite) hs =
     (if overwrite = Some False then hs @ [(name, v)]
      else filter (\<lambda>(n, _). n \<noteq> name) hs @ [(name, v)])"
| "apply_header _ hs = hs"

definition response_headers :: "call list \<Rightarrow> (string \<times> string) list" where
  "response_headers calls = fold apply_header calls []"

fun is_send :: "call \<Rightarrow> bool" where
  "is_send (Send _) = True"
| "is_send _ = False"

definition send_count :: "call list \<Rightarrow> nat" where
  "send_count calls = length (filter is_send calls)"

text \<open>
  Modelled from the spec: \<^verbatim>\<open>writeReadableStreamToWritable\<close> of @remix-run/node is not
  in the repository. It drains the stream into the writable: every chunk read is written
  in order and the writable is ended when the stream is done; when reading fails the
  writable is destroyed and the awaited promise rejects with the error.
\<close>

fun writeReadableStreamToWritable :: "readable \<Rightarrow> call list \<Rightarrow> (error + unit) \<times> call list" where
  "writeReadableStreamToWritable (Readable chunks Done) response =
     (Inr (), response @ map Write chunks @ [End])"
| "writeReadableStreamToWritable (Readable chunks (Failed e)) response =
     (Inl e, response @ map Write chunks @ [Destroy e])"

text \<open>
  \<^verbatim>\<open>sendRemixResponse\<close> (lines 153-171): status, then one \<^verbatim>\<open>header\<close> call per value
  with the overwrite flag \<^verbatim>\<open>false\<close>, then the body. A rejection of the awaited write
  leaves the function before \<^verbatim>\<open>response.send()\<close>.
\<close>

definition sendRemixResponse :: "call list \<Rightarrow> node_response \<Rightarrow> (error + unit) \<times> call list" where
  "sendRemixResponse response nodeResponse =
     (let r1 = response @ [Status (status nodeResponse) (statusText nodeResponse)];
          r2 = fold (\<lambda>(key, values) r.
                       fold (\<lambda>v r'. r' @ [Header key v (Some False)]) values r)
                    (res_headers nodeResponse) r1
      in case res_body nodeResponse of
           Some body \<Rightarrow>
             (case writeReadableStreamToWritable body r2 of
                (Inl e, r3) \<Rightarrow> (Inl e, r3)
              | (Inr _, r3) \<Rightarrow> (Inr (), r3 @ [Send None]))
         | None \<Rightarrow> (Inr (), r2 @ [Send None]))"

subsection \<open>Process state\<close>

text \<open>
  What the rendering engine's build module exports, the context value a hook produces,
  and a file of a static directory: whether live-directory holds it in memory, and its
  bytes (sent from memory, or read lazily by \<^verbatim>\<open>asset.stream()\<close>).
\<close>

datatype server_build = ServerBuild string

datatype load_context = LoadContext string

record asset =
  cached :: bool
  content :: string

text \<open>
  The state the handler reads and changes. \<^verbatim>\<open>disk\<close> gives, for a module file, what
  loading it yields at present (its default export, or the error loading throws);
  \<^verbatim>\<open>require_cache\<close> is Node's \<^verbatim>\<open>require.cache\<close>, keyed by file name in insertion
  order; \<^verbatim>\<open>response\<close> is the outbound response of the current request;
  \<^verbatim>\<open>controllers\<close> holds, for every abort controller created so far, whether its
  signal has fired. \<^verbatim>\<open>handlers_created\<close> and \<^verbatim>\<open>engine_calls\<close> record the calls of
  \<^verbatim>\<open>createRemixRequestHandler\<close> and of the function it returns.
\<close>

record world =
  disk :: "string \<Rightarrow> error + server_build"
  require_cache :: "(string \<times> server_build) list"
  response :: "call list"
  controllers :: "bool list"
  handlers_created :: "(server_build \<times> string option) list"
  engine_calls :: "(remix_request \<times> load_context option) list"

text \<open>
  What the handler is given by its surroundings and does not change: how Node resolves a
  module specifier to the file name that keys the cache, \<^verbatim>\<open>process.env.NODE_ENV\<close>, the
  URL parser of the \<^verbatim>\<open>NodeRequest\<close> constructor (the serialised URL, or the error it
  throws for a string that is no URL), the files below \<^verbatim>\<open>public/build\<close> and below
  \<^verbatim>\<open>public/\<close> (each with its path relative to that directory, as in
  \<^verbatim>\<open>build/entry.js\<close>), and the rendering engine.
\<close>

record platform =
  resolve :: "string \<Rightarrow> string"
  node_env :: "string option"
  parse_url :: "string \<Rightarrow> error + string"
  build_files :: "(string \<times> asset) list"
  public_files :: "(string \<times> asset) list"
  createRemixRequestHandler ::
    "server_build \<Rightarrow> string option \<Rightarrow> remix_request \<Rightarrow> load_context option \<Rightarrow> error + node_response"

text \<open>
  The argument of \<^verbatim>\<open>createRequestHandler\<close> (lines 20-32). \<^verbatim>\<open>build\<close> is declared a
  string, so the test \<^verbatim>\<open>typeof build === "string"\<close> of line 55 holds. An option that
  is left out is \<^verbatim>\<open>None\<close> and takes its default.
\<close>

record options =
  build :: string
  getLoadContext :: "(in_request \<Rightarrow> error + load_context) option"
  mode :: "string option"
  opt_purgeRequireCache :: "bool option"
  opt_serveStaticAssets :: "bool option"

text \<open>What the handler returns to the host framework.\<close>

datatype returned = Nothing | SendResult | PipeResult | Caught error

subsection \<open>Module cache\<close>

text \<open>
  Modelled from the spec: the module loader behind \<^verbatim>\<open>await import(build)\<close> and
  \<^verbatim>\<open>require.cache\<close> belongs to Node, not to the repository. For a module that Node
  loads through \<^verbatim>\<open>require\<close>, a file found in the cache is not loaded again, and a
  file that is loaded is entered into the cache under its file name; the result is the
  module's \<^verbatim>\<open>default\<close> export. (The files a module itself requires are left out.)
\<close>

definition import_build :: "platform \<Rightarrow> string \<Rightarrow> world \<Rightarrow> (error + server_build) \<times> world" where
  "import_build pf specifier w =
     (let filename = resolve pf specifier in
      case map_of (require_cache w) filename of
        Some m \<Rightarrow> (Inr m, w)
      | None \<Rightarrow>
          (case disk w filename of
             Inl e \<Rightarrow> (Inl e, w)
           | Inr m \<Rightarrow> (Inr m, w\<lparr>require_cache := require_cache w @ [(filename, m)]\<rparr>)))"

text \<open>
  \<^verbatim>\<open>purgeRequireCache\<close> (lines 105-111): the loop visits every key of the cache and
  deletes the key when it starts with \<^verbatim>\<open>build\<close>.
\<close>

definition delete_key :: "string \<Rightarrow> (string \<times> 'v) list \<Rightarrow> (string \<times> 'v) list" where
  "delete_key k cache = filter (\<lambda>(k', _). k' \<noteq> k) cache"

definition purgeRequireCache :: "string \<Rightarrow> (string \<times> 'v) list \<Rightarrow> (string \<times> 'v) list" where
  "purgeRequireCache build_path cache =
     fold (\<lambda>key c. if startsWith key build_path then delete_key key c else c)
          (map fst cache) cache"

subsection \<open>Static directories\<close>

text \<open>
  Modelled from the spec: \<^verbatim>\<open>LiveDirectory\<close> of live-directory is not in the
  repository. It indexes the files of a directory, each under its path relative to the
  directory with a leading slash (the form of a request path, under which the handler
  looks assets up), leaving out those for whose path the \<^verbatim>\<open>ignore\<close> filter returns
  true; \<^verbatim>\<open>get\<close> looks a path up and returns \<^verbatim>\<open>undefined\<close> when it is not
  indexed.
\<close>

type_synonym live_directory = "(string \<times> asset) list"

definition LiveDirectory :: "(string \<times> asset) list \<Rightarrow> (string \<Rightarrow> bool) \<Rightarrow> live_directory" where
  "LiveDirectory files ignore =
     filter (\<lambda>(p, _). \<not> ignore p) (map (\<lambda>(rel, a). (CHR ''/'' # rel, a)) files)"

definition directory_get :: "live_directory \<Rightarrow> string \<Rightarrow> asset option" where
  "directory_get dir p = map_of dir p"

subsection \<open>Request translation\<close>

text \<open>
  The truthiness test \<^verbatim>\<open>if (values)\<close>: \<^verbatim>\<open>undefined\<close> and the empty string are
  falsy, every array is truthy.
\<close>

fun truthy :: "header_value \<Rightarrow> bool" where
  "truthy Undefined = False"
| "truthy (Single s) = (s \<noteq> [])"
| "truthy (Multi vs) = True"

text \<open>\<^verbatim>\<open>createRemixHeaders\<close> (lines 113-129).\<close>

definition createRemixHeaders :: "(string \<times> header_value) list \<Rightarrow> node_headers" where
  "createRemixHeaders requestHeaders =
     fold (\<lambda>(key, values) hdrs.
             if truthy values then
               (case values of
                  Multi vs \<Rightarrow> fold (\<lambda>v h. headers_append key v h) vs hdrs
                | Single v \<Rightarrow> headers_set key v hdrs
                | Undefined \<Rightarrow> hdrs)
             else hdrs)
          requestHeaders []"

text \<open>
  Modelled from the spec: the constructor \<^verbatim>\<open>NodeRequest\<close> of @remix-run/node is not in
  the repository. It parses the URL and throws when the string is no URL; it puts the
  method in upper case; it throws when a \<^verbatim>\<open>GET\<close> or \<^verbatim>\<open>HEAD\<close> request is given a
  body; otherwise the request carries the parsed URL and the fields of \<^verbatim>\<open>init\<close>.
\<close>

definition NodeRequest :: "platform \<Rightarrow> string \<Rightarrow> request_init \<Rightarrow> error + remix_request" where
  "NodeRequest pf u init =
     (case parse_url pf u of
        Inl e \<Rightarrow> Inl e
      | Inr href \<Rightarrow>
          (let m = toUpperCase (init_method init) in
           case init_body init of
             None \<Rightarrow>
               Inr \<lparr>req_url = href, req_method = m, req_headers = init_headers init,
                    req_signal = init_signal init, req_body = None\<rparr>
           | Some b \<Rightarrow>
               if m = ''GET'' \<or> m = ''HEAD''
               then Inl (Error ''Request with GET/HEAD method cannot have body'')
               else Inr \<lparr>req_url = href, req_method = m, req_headers = init_headers init,
                         req_signal = init_signal init, req_body = Some b\<rparr>))"

text \<open>
  Lines 140-148 of \<^verbatim>\<open>createRemixRequest\<close>: the \<^verbatim>\<open>init\<close> object for a request and the
  abort controller created for it. The body is assigned for every method but
  \<^verbatim>\<open>GET\<close> and \<^verbatim>\<open>HEAD\<close>.
\<close>

definition init_of :: "in_request \<Rightarrow> nat \<Rightarrow> request_init" where
  "init_of request controller =
     (let init = \<lparr>init_method = http_method request,
                  init_headers = createRemixHeaders (headers request),
                  init_signal = controller, init_body = None\<rparr>
      in if http_method request \<noteq> ''GET'' \<and> http_method request \<noteq> ''HEAD''
         then init\<lparr>init_body := Some (stream request)\<rparr>
         else init)"

text \<open>
  \<^verbatim>\<open>createRemixRequest\<close> (lines 131-151). The new abort controller is the next entry
  of \<^verbatim>\<open>controllers\<close>; the listener registered for \<^verbatim>\<open>close\<close> is the closure that
  aborts it. The constructor of line 150 runs last, so the controller and the listener
  are there also when it throws.
\<close>

definition createRemixRequest ::
    "platform \<Rightarrow> in_request \<Rightarrow> world \<Rightarrow> (error + remix_request) \<times> world" where
  "createRemixRequest pf request w =
     (let u = protocol request @ ''://'' @ hostname request @ url request;
          controller = length (controllers w);
          w1 = w\<lparr>controllers := controllers w @ [False]\<rparr>;
          w2 = w1\<lparr>response := response w1 @ [On ''close'' (Abort controller)]\<rparr>;
          init = init_of request controller
      in (NodeRequest pf u init, w2))"

text \<open>
  Modelled from the spec: the event emitter of the outbound response and
  \<^verbatim>\<open>NodeAbortController\<close> are not in the repository. An event on the response runs the
  listeners registered for it, in the order of registration; \<^verbatim>\<open>controller.abort()\<close>
  fires the controller's signal, which stays fired.
\<close>

fun run_listener :: "string \<Rightarrow> call \<Rightarrow> bool list \<Rightarrow> bool list" where
  "run_listener event (On ev (Abort c)) cs = (if ev = event then cs[c := True] else cs)"
| "run_listener event _ cs = cs"

definition emit :: "string \<Rightarrow> world \<Rightarrow> world" where
  "emit event w = w\<lparr>controllers := fold (run_listener event) (response w) (controllers w)\<rparr>"

definition aborted :: "world \<Rightarrow> nat \<Rightarrow> bool" where
  "aborted w c = (c < length (controllers w) \<and> controllers w ! c)"

subsection \<open>The handler\<close>

text \<open>
  Lines 62-91, entered when static assets are served: \<^verbatim>\<open>Some r\<close> when the handler
  returns \<^verbatim>\<open>r\<close> from inside the block, \<^verbatim>\<open>None\<close> when control leaves the block.
\<close>

definition serveStaticAssets ::
    "live_directory \<Rightarrow> live_directory \<Rightarrow> in_request \<Rightarrow> call list \<Rightarrow> returned option \<times> call list" where
  "serveStaticAssets built public request resp =
     (if startsWith (path request) ''/build'' then
        (let p = replace (path request) ''/build'' [] in
         case directory_get built p of
           Some a \<Rightarrow>
             (let ONE_YEAR = 1 * 365 * 24 * 60 * 60;
                  r1 = resp @ [Header ''Cache-Control'' (''max-age='' @ numeral_string ONE_YEAR) None]
              in if cached a then (Some SendResult, r1 @ [Send (Some (content a))])
                 else (Some PipeResult, r1 @ [Pipe (content a)]))
         | None \<Rightarrow> (None, resp))
      else
        (case directory_get public (path request) of
           Some a \<Rightarrow>
             (let ONE_HOUR = 1 * 60 * 60;
                  r1 = resp @ [Header ''Cache-Control'' (''max-age='' @ numeral_string ONE_HOUR) None]
              in if cached a then (Some SendResult, r1 @ [Send (Some (content a))])
                 else (Some PipeResult, r1 @ [Pipe (content a)]))
         | None \<Rightarrow> (None, resp)))"

text \<open>
  Line 94, \<^verbatim>\<open>await getLoadContext?.(request, response)\<close>: \<^verbatim>\<open>undefined\<close> when no
  hook is configured, otherwise what the hook returns or throws. What a hook does to the
  response is its own affair and is not represented.
\<close>

definition call_getLoadContext :: "options \<Rightarrow> in_request \<Rightarrow> error + load_context option" where
  "call_getLoadContext opts request =
     (case getLoadContext opts of
        None \<Rightarrow> Inr None
      | Some hook \<Rightarrow> (case hook request of Inl e \<Rightarrow> Inl e | Inr c \<Rightarrow> Inr (Some c)))"

text \<open>
  Lines 93-98: translate the request, run the optional context hook, invoke the engine,
  translate its response. \<^verbatim>\<open>Inl\<close> is an exception leaving the block.
\<close>

definition render ::
    "options \<Rightarrow> platform \<Rightarrow> (remix_request \<Rightarrow> load_context option \<Rightarrow> error + node_response)
      \<Rightarrow> in_request \<Rightarrow> world \<Rightarrow> (error + returned) \<times> world" where
  "render opts pf handleRequest request w =
     (case createRemixRequest pf request w of
        (Inl e, w1) \<Rightarrow> (Inl e, w1)
      | (Inr remixRequest, w1) \<Rightarrow>
          (case call_getLoadContext opts request of
             Inl e \<Rightarrow> (Inl e, w1)
           | Inr loadContext \<Rightarrow>
               (let w2 = w1\<lparr>engine_calls := engine_calls w1 @ [(remixRequest, loadContext)]\<rparr> in
                case handleRequest remixRequest loadContext of
                  Inl e \<Rightarrow> (Inl e, w2)
                | Inr remixResponse \<Rightarrow>
                    (case sendRemixResponse (response w2) remixResponse of
                       (Inl e, r) \<Rightarrow> (Inl e, w2\<lparr>response := r\<rparr>)
                     | (Inr _, r) \<Rightarrow> (Inr Nothing, w2\<lparr>response := r\<rparr>)))))"

text \<open>
  The two directories of lines 37-48: the built assets are indexed without a filter, the
  public assets with the filter that ignores every path starting with \<^verbatim>\<open>build\<close>.
\<close>

definition builtAssets :: "platform \<Rightarrow> live_directory" where
  "builtAssets pf = LiveDirectory (build_files pf) (\<lambda>p. False)"

definition publicAssets :: "platform \<Rightarrow> live_directory" where
  "publicAssets pf = LiveDirectory (public_files pf) (\<lambda>p. startsWith p ''build'')"

text \<open>
  Lines 53-60: the mode, the import of the build, the engine's request handler for it,
  and the purge of the module cache outside production. The result is the function
  \<^verbatim>\<open>handleRequest\<close>, or the exception the import threw.
\<close>

definition resolve_build ::
    "options \<Rightarrow> platform \<Rightarrow> world
      \<Rightarrow> (error + (remix_request \<Rightarrow> load_context option \<Rightarrow> error + node_response)) \<times> world" where
  "resolve_build opts pf w =
     (let m = (case mode opts of None \<Rightarrow> node_env pf | Some x \<Rightarrow> Some x);
          enablePurgeRequireCache = (case opt_purgeRequireCache opts of None \<Rightarrow> True | Some b \<Rightarrow> b);
          production = (m = Some ''production'');
          environment = (if production then m else None)
      in case import_build pf (build opts) w of
           (Inl e, w1) \<Rightarrow> (Inl e, w1)
         | (Inr serverBuild, w1) \<Rightarrow>
             (let handleRequest = createRemixRequestHandler pf serverBuild environment;
                  w2 = w1\<lparr>handlers_created := handlers_created w1 @ [(serverBuild, environment)]\<rparr>;
                  w3 = (if enablePurgeRequireCache \<and> \<not> production
                        then w2\<lparr>require_cache := purgeRequireCache (build opts) (require_cache w2)\<rparr>
                        else w2)
              in (Inr handleRequest, w3)))"

text \<open>
  The body of the \<^verbatim>\<open>try\<close> block (lines 53-98). \<^verbatim>\<open>assets\<close> holds the two
  directories when static assets are served.
\<close>

definition try_block ::
    "options \<Rightarrow> platform \<Rightarrow> (live_directory \<times> live_directory) option \<Rightarrow> in_request \<Rightarrow> world
      \<Rightarrow> (error + returned) \<times> world" where
  "try_block opts pf assets request w =
     (case resolve_build opts pf w of
        (Inl e, w1) \<Rightarrow> (Inl e, w1)
      | (Inr handleRequest, w3) \<Rightarrow>
          (case assets of
             Some (built, public) \<Rightarrow>
               (case serveStaticAssets built public request (response w3) of
                  (Some r, resp) \<Rightarrow> (Inr r, w3\<lparr>response := resp\<rparr>)
                | (None, resp) \<Rightarrow> render opts pf handleRequest request (w3\<lparr>response := resp\<rparr>))
           | None \<Rightarrow> render opts pf handleRequest request w3))"

text \<open>
  \<^verbatim>\<open>createRequestHandler\<close> (lines 20-103): the two directories are indexed once, when
  static assets are served; the handler runs the \<^verbatim>\<open>try\<close> block and, in the
  \<^verbatim>\<open>catch\<close> clause, returns the error it caught. The result is \<^verbatim>\<open>Inl\<close> for an
  exception that leaves the handler and \<^verbatim>\<open>Inr\<close> for a value it returns.
\<close>

definition createRequestHandler ::
    "options \<Rightarrow> platform \<Rightarrow> in_request \<Rightarrow> world \<Rightarrow> (error + returned) \<times> world" where
  "createRequestHandler opts pf =
     (let enableServeStaticAssets = (case opt_serveStaticAssets opts of None \<Rightarrow> True | Some b \<Rightarrow> b);
          assets = (if enableServeStaticAssets then Some (builtAssets pf, publicAssets pf) else None)
      in (\<lambda>request w.
            case try_block opts pf assets request w of
              (Inl e, w') \<Rightarrow> (Inr (Caught e), w')
            | (Inr r, w') \<Rightarrow> (Inr r, w')))"

subsection \<open>What the specification asks of the header copy\<close>

text \<open>
  The entries one inbound header contributes to the canonical collection, in the words of
  the specification: an array contributes one entry per value, in order; a single
  non-empty string contributes one entry; nothing else contributes. This definition is
  not taken from the code; \<^verbatim>\<open>createRemixHeaders\<close> is compared with it.
\<close>

fun spec_entries :: "string \<times> header_value \<Rightarrow> node_headers" where
  "spec_entries (key, Multi vs) = map (Pair (toLowerCase key)) vs"
| "spec_entries (key, Single v) = (if v = [] then [] else [(toLowerCase key, v)])"
| "spec_entries (key, Undefined) = []"

subsection \<open>A concrete deployment\<close>

text \<open>
  An application whose build lies in \<^verbatim>\<open>/app/build\<close> (which \<^verbatim>\<open>./build\<close> names as
  well), with the built asset \<^verbatim>\<open>public/build/entry.js\<close>, the public file
  \<^verbatim>\<open>public/favicon.ico\<close>, and an engine that answers every request with a page naming
  the build that rendered it. The examples below run the handler on it.
\<close>

definition ex_request :: in_request where
  "ex_request =
     \<lparr>protocol = ''https'', hostname = ''example.org'', url = ''/posts?page=2'',
      path = ''/posts'', http_method = ''POST'',
      headers = [(''x-a'', Multi [''1'', ''2'']), (''x-b'', Single ''v'')],
      stream = Readable [''title=hello''] Done\<rparr>"

definition ex_disk :: "string \<Rightarrow> string \<Rightarrow> error + server_build" where
  "ex_disk version file =
     (if file = ''/app/build/index.js'' then Inr (ServerBuild version)
      else Inl (Error ''MODULE_NOT_FOUND''))"

definition ex_world :: world where
  "ex_world =
     \<lparr>disk = ex_disk ''v1'', require_cache = [], response = [], controllers = [],
      handlers_created = [], engine_calls = []\<rparr>"

definition ex_engine ::
    "server_build \<Rightarrow> string option \<Rightarrow> remix_request \<Rightarrow> load_context option \<Rightarrow> error + node_response" where
  "ex_engine b environment r c =
     (case b of
        ServerBuild version \<Rightarrow>
          Inr \<lparr>status = 200, statusText = ''OK'',
               res_headers = [(''set-cookie'', [''a=1'', ''b=2''])],
               res_body = Some (Readable [version] Done)\<rparr>)"

text \<open>
  The URL parser of the deployment: the host, which is what stands between \<^verbatim>\<open>://\<close> and
  the next \<^verbatim>\<open>/\<close>, \<^verbatim>\<open>?\<close> or \<^verbatim>\<open>#\<close>, must not be empty and must not hold a space;
  a URL that parses is returned as it is.
\<close>

fun after_scheme :: "string \<Rightarrow> string" where
  "after_scheme [] = []"
| "after_scheme (c # cs) =
     (if startsWith (c # cs) ''://'' then drop 3 (c # cs) else after_scheme cs)"

definition ex_parse_url :: "string \<Rightarrow> error + string" where
  "ex_parse_url u =
     (let host = takeWhile (\<lambda>c. c \<notin> set ''/?#'') (after_scheme u)
      in if host = [] \<or> CHR '' '' \<in> set host then Inl (Error ''Invalid URL'') else Inr u)"

definition ex_resolve :: "string \<Rightarrow> string" where
  "ex_resolve specifier =
     (if specifier = ''/app/build'' \<or> specifier = ''./build'' then ''/app/build/index.js''
      else specifier)"

definition ex_platform :: platform where
  "ex_platform =
     \<lparr>resolve = ex_resolve,
      node_env = Some ''development'',
      parse_url = ex_parse_url,
      build_files = [(''entry.js'', \<lparr>cached = True, content = ''entry''\<rparr>)],
      public_files = [(''favicon.ico'', \<lparr>cached = False, content = ''icon''\<rparr>),
                      (''build/entry.js'', \<lparr>cached = True, content = ''entry''\<rparr>)],
      createRemixRequestHandler = ex_engine\<rparr>"

definition ex_options :: options where
  "ex_options =
     \<lparr>build = ''/app/build'', getLoadContext = None, mode = None,
      opt_purgeRequireCache = None, opt_serveStaticAssets = None\<rparr>"

text \<open>A context hook that finds no session and throws.\<close>

definition ex_failing_hook :: "in_request \<Rightarrow> error + load_context" where
  "ex_failing_hook r = Inl (Error ''no session'')"

section \<open>Response translation\<close>

lemma fold_header_values:
  "fold (\<lambda>v r'. r' @ [Header key v (Some False)]) vs r = r @ map (\<lambda>v. Header key v (Some False)) vs"
  by (induction vs arbitrary: r) simp_all

lemma fold_header_entries:
  "fold (\<lambda>(key, vs) r. fold (\<lambda>v r'. r' @ [Header key v (Some False)]) vs r) raw r
     = r @ concat (map (\<lambda>(key, vs). map (\<lambda>v. Header key v (Some False)) vs) raw)"
  by (induction raw arbitrary: r) (auto simp: fold_header_values)

lemma apply_header_values:
  "fold apply_header (map (\<lambda>v. Header key v (Some False)) vs) hs = hs @ map (Pair key) vs"
  by (induction vs arbitrary: hs) simp_all

lemma apply_header_entries:
  "fold apply_header (concat (map (\<lambda>(key, vs). map (\<lambda>v. Header key v (Some False)) vs) raw)) hs
     = hs @ concat (map (\<lambda>(key, vs). map (Pair key) vs) raw)"
  by (induction raw arbitrary: hs) (auto simp: apply_header_values)

lemma apply_header_writes: "fold apply_header (map Write chunks) hs = hs"
  by (induction chunks) simp_all

text \<open>The calls \<^verbatim>\<open>sendRemixResponse\<close> makes, in order.\<close>

lemma sendRemixResponse_calls:
  "snd (sendRemixResponse resp nr) =
     resp @ [Status (status nr) (statusText nr)]
       @ concat (map (\<lambda>(key, vs). map (\<lambda>v. Header key v (Some False)) vs) (res_headers nr))
       @ (case res_body nr of
            None \<Rightarrow> [Send None]
          | Some (Readable chunks Done) \<Rightarrow> map Write chunks @ [End, Send None]
          | Some (Readable chunks (Failed e)) \<Rightarrow> map Write chunks @ [Destroy e])"
  by (auto simp: sendRemixResponse_def Let_def fold_header_entries
      split: option.splits readable.splits ending.splits prod.splits sum.splits)

text \<open>
  Claim C1. Whatever header lines the outbound response already holds, translating a
  canonical response keeps all of them and adds, for each header name in turn, one line
  per value of that name, in the order of the values: no value replaces an earlier line
  of the same name, and no two values are joined.
\<close>

theorem sendRemixResponse_appends_every_header_value:
  "response_headers (snd (sendRemixResponse resp nodeResponse)) =
     response_headers resp
       @ concat (map (\<lambda>(key, vs). map (Pair key) vs) (res_headers nodeResponse))"
  by (simp add: sendRemixResponse_calls response_headers_def apply_header_entries
      apply_header_writes split: option.splits readable.splits ending.splits)

text \<open>A canonical response with two \<^verbatim>\<open>Set-Cookie\<close> values leaves two header lines.\<close>

theorem sendRemixResponse_two_set_cookie_lines:
  "response_headers (snd (sendRemixResponse []
      \<lparr>status = 200, statusText = ''OK'',
       res_headers = [(''set-cookie'', [''a=1'', ''b=2''])], res_body = None\<rparr>))
     = [(''set-cookie'', ''a=1''), (''set-cookie'', ''b=2'')]"
  using sendRemixResponse_appends_every_header_value [of "[]"
      "\<lparr>status = 200, statusText = ''OK'',
        res_headers = [(''set-cookie'', [''a=1'', ''b=2''])], res_body = None\<rparr>"]
  by (simp add: response_headers_def)

lemma sendRemixResponse_result:
  "fst (sendRemixResponse resp nr) =
     (case res_body nr of Some (Readable chunks (Failed e)) \<Rightarrow> Inl e | _ \<Rightarrow> Inr ())"
  by (auto simp: sendRemixResponse_def Let_def
      split: option.splits readable.splits ending.splits prod.splits sum.splits)

lemma send_count_append: "send_count (xs @ ys) = send_count xs + send_count ys"
  by (simp add: send_count_def)

lemma send_count_header_calls:
  "send_count (concat (map (\<lambda>(key, vs). map (\<lambda>v. Header key v (Some False)) vs) raw)) = 0"
  by (auto simp: send_count_def filter_empty_conv)

lemma send_count_writes: "send_count (map Write chunks) = 0"
  by (auto simp: send_count_def filter_empty_conv)

text \<open>
  Claim C4, as the code has it. Without a body \<^verbatim>\<open>send\<close> is called at once, after the
  status and the header calls. With a body whose stream ends normally, every chunk is
  written and the writable ended before the one call of \<^verbatim>\<open>send\<close>. With a body
  whose stream fails, the translator is left with that error and \<^verbatim>\<open>send\<close> is not
  called. So \<^verbatim>\<open>send\<close> is called once exactly when the translation does not fail.
\<close>

theorem sendRemixResponse_sends_once_unless_the_body_fails:
  "(case res_body nr of
      None \<Rightarrow>
        sendRemixResponse resp nr =
          (Inr (), resp @ Status (status nr) (statusText nr)
             # concat (map (\<lambda>(key, vs). map (\<lambda>v. Header key v (Some False)) vs) (res_headers nr))
             @ [Send None])
    | Some (Readable chunks Done) \<Rightarrow>
        sendRemixResponse resp nr =
          (Inr (), resp @ Status (status nr) (statusText nr)
             # concat (map (\<lambda>(key, vs). map (\<lambda>v. Header key v (Some False)) vs) (res_headers nr))
             @ map Write chunks @ [End, Send None])
    | Some (Readable chunks (Failed e)) \<Rightarrow>
        fst (sendRemixResponse resp nr) = Inl e)
   \<and> send_count (snd (sendRemixResponse resp nr)) =
       send_count resp + (if fst (sendRemixResponse resp nr) = Inr () then 1 else 0)"
proof -
  have c0: "send_count [] = 0"
    "\<And>x xs. send_count (x # xs) = (if is_send x then Suc (send_count xs) else send_count xs)"
    by (simp_all add: send_count_def)
  have "send_count (snd (sendRemixResponse resp nr)) =
       send_count resp + (if fst (sendRemixResponse resp nr) = Inr () then 1 else 0)"
    by (simp add: sendRemixResponse_calls sendRemixResponse_result send_count_append
        send_count_header_calls send_count_writes c0
        split: option.splits readable.splits ending.splits)
  moreover have "(case res_body nr of
      None \<Rightarrow>
        sendRemixResponse resp nr =
          (Inr (), resp @ Status (status nr) (statusText nr)
             # concat (map (\<lambda>(key, vs). map (\<lambda>v. Header key v (Some False)) vs) (res_headers nr))
             @ [Send None])
    | Some (Readable chunks Done) \<Rightarrow>
        sendRemixResponse resp nr =
          (Inr (), resp @ Status (status nr) (statusText nr)
             # concat (map (\<lambda>(key, vs). map (\<lambda>v. Header key v (Some False)) vs) (res_headers nr))
             @ map Write chunks @ [End, Send None])
    | Some (Readable chunks (Failed e)) \<Rightarrow>
        fst (sendRemixResponse resp nr) = Inl e)"
    by (simp add: prod_eq_iff sendRemixResponse_calls sendRemixResponse_result
        split: option.splits readable.splits ending.splits)
  ultimately show ?thesis by blast
qed

text \<open>A streamed page: the chunk is written and the writable ended, then the one \<^verbatim>\<open>send\<close>.\<close>

theorem sendRemixResponse_streamed_page:
  "sendRemixResponse []
      \<lparr>status = 200, statusText = ''OK'', res_headers = [(''content-type'', [''text/html''])],
       res_body = Some (Readable [''<html>''] Done)\<rparr>
     = (Inr (), [Status 200 ''OK'', Header ''content-type'' ''text/html'' (Some False),
                 Write ''<html>'', End, Send None])
   \<and> send_count (snd (sendRemixResponse []
      \<lparr>status = 200, statusText = ''OK'', res_headers = [(''content-type'', [''text/html''])],
       res_body = Some (Readable [''<html>''] Done)\<rparr>)) = 1"
  using sendRemixResponse_sends_once_unless_the_body_fails [where resp = "[]" and nr =
      "\<lparr>status = 200, statusText = ''OK'', res_headers = [(''content-type'', [''text/html''])],
        res_body = Some (Readable [''<html>''] Done)\<rparr>"]
  by (simp add: send_count_def)

text \<open>
  The claim as stated fails for a body whose stream breaks off: the translation ends with
  the stream's error and \<^verbatim>\<open>send\<close> has not been called.
\<close>

theorem sendRemixResponse_failed_body_never_sends:
  "fst (sendRemixResponse []
      \<lparr>status = 200, statusText = ''OK'', res_headers = [],
       res_body = Some (Readable [''<html>''] (Failed (Error ''ECONNRESET'')))\<rparr>)
     = Inl (Error ''ECONNRESET'')
   \<and> send_count (snd (sendRemixResponse []
      \<lparr>status = 200, statusText = ''OK'', res_headers = [],
       res_body = Some (Readable [''<html>''] (Failed (Error ''ECONNRESET'')))\<rparr>)) = 0"
  by (simp add: sendRemixResponse_def send_count_def)

section \<open>Request translation\<close>

text \<open>
  Claim C3. The \<^verbatim>\<open>init\<close> object the request translator builds has no body when the
  method is \<^verbatim>\<open>GET\<close> or \<^verbatim>\<open>HEAD\<close>, whatever the inbound request carries, and for every
  other method its body is the inbound request's stream itself; and whenever the
  constructor builds the canonical request from it, that request carries this same body.
\<close>

theorem createRemixRequest_body:
  "init_body (init_of request controller) =
     (if http_method request = ''GET'' \<or> http_method request = ''HEAD'' then None
      else Some (stream request))
   \<and> (\<forall>r. fst (createRemixRequest pf request w) = Inr r \<longrightarrow>
          req_body r =
            (if http_method request = ''GET'' \<or> http_method request = ''HEAD'' then None
             else Some (stream request)))"
  by (auto simp: createRemixRequest_def init_of_def NodeRequest_def Let_def
      split: sum.splits option.splits if_splits)

text \<open>
  In the concrete deployment: the body of a \<^verbatim>\<open>POST\<close> request is its stream, a
  \<^verbatim>\<open>GET\<close> request has none.
\<close>

theorem createRemixRequest_body_example:
  "(\<exists>r. fst (createRemixRequest ex_platform ex_request ex_world) = Inr r
        \<and> req_body r = Some (Readable [''title=hello''] Done))
   \<and> (\<exists>r. fst (createRemixRequest ex_platform (ex_request\<lparr>http_method := ''GET''\<rparr>) ex_world) = Inr r
        \<and> req_body r = None)"
proof -
  have url: "ex_parse_url ''https://example.org/posts?page=2'' = Inr ''https://example.org/posts?page=2''"
    by (simp add: ex_parse_url_def)
  obtain r where r: "fst (createRemixRequest ex_platform ex_request ex_world) = Inr r"
    by (simp add: createRemixRequest_def init_of_def NodeRequest_def Let_def url
        ex_platform_def ex_request_def toUpperCase_def toUpperCase_char_def)
  obtain g where g: "fst (createRemixRequest ex_platform (ex_request\<lparr>http_method := ''GET''\<rparr>) ex_world) = Inr g"
    by (simp add: createRemixRequest_def init_of_def NodeRequest_def Let_def url
        ex_platform_def ex_request_def toUpperCase_def toUpperCase_char_def)
  have "req_body r = Some (Readable [''title=hello''] Done)"
    using createRemixRequest_body [of ex_request _ ex_platform ex_world] r
    by (simp add: ex_request_def)
  moreover have "req_body g = None"
    using createRemixRequest_body [of "ex_request\<lparr>http_method := ''GET''\<rparr>" _ ex_platform ex_world] g
    by simp
  ultimately show ?thesis using r g by blast
qed

lemma headers_set_fresh:
  "toLowerCase k \<notin> fst ` set h \<Longrightarrow> headers_set k v h = h @ [(toLowerCase k, v)]"
  by (force simp: headers_set_def filter_id_conv)

lemma fold_headers_append:
  "fold (\<lambda>v h. headers_append key v h) vs h = h @ map (Pair (toLowerCase key)) vs"
  by (induction vs arbitrary: h) (simp_all add: headers_append_def)

lemma spec_entries_names: "fst ` set (spec_entries (k, v)) \<subseteq> {toLowerCase k}"
  by (cases v) auto

text \<open>
  The loop of \<^verbatim>\<open>createRemixHeaders\<close>, started from any collection that holds none of
  the names still to come.
\<close>

lemma createRemixHeaders_loop:
  "distinct (map (\<lambda>h. toLowerCase (fst h)) hs) \<Longrightarrow>
   \<forall>k \<in> fst ` set hs. toLowerCase k \<notin> fst ` set acc \<Longrightarrow>
   fold (\<lambda>(key, values) hdrs.
             if truthy values then
               (case values of
                  Multi vs \<Rightarrow> fold (\<lambda>v h. headers_append key v h) vs hdrs
                | Single v \<Rightarrow> headers_set key v hdrs
                | Undefined \<Rightarrow> hdrs)
             else hdrs) hs acc = acc @ concat (map spec_entries hs)"
proof (induction hs arbitrary: acc)
  case Nil
  then show ?case by simp
next
  case (Cons h hs)
  obtain k v where h: "h = (k, v)" by (cases h)
  have fresh: "toLowerCase k \<notin> fst ` set acc" using Cons.prems(2) h by simp
  have step: "(if truthy v then
               (case v of
                  Multi vs \<Rightarrow> fold (\<lambda>v h. headers_append k v h) vs acc
                | Single v \<Rightarrow> headers_set k v acc
                | Undefined \<Rightarrow> acc)
             else acc) = acc @ spec_entries (k, v)"
    using fresh by (cases v) (simp_all add: fold_headers_append headers_set_fresh)
  have rest: "\<forall>k' \<in> fst ` set hs. toLowerCase k' \<notin> fst ` set (acc @ spec_entries (k, v))"
  proof
    fix k' assume k': "k' \<in> fst ` set hs"
    then have "toLowerCase k' \<noteq> toLowerCase k" using Cons.prems(1) h by force
    moreover have "toLowerCase k' \<notin> fst ` set acc" using Cons.prems(2) k' by auto
    ultimately show "toLowerCase k' \<notin> fst ` set (acc @ spec_entries (k, v))"
      using spec_entries_names [of k v] by auto
  qed
  have "distinct (map (\<lambda>h. toLowerCase (fst h)) hs)" using Cons.prems(1) by simp
  from Cons.IH [OF this rest] show ?case by (simp add: h step)
qed

text \<open>
  Claim C2, as the code has it. For an inbound header object whose names differ in more
  than letter case, the canonical collection is the concatenation, in the order of the
  object's entries, of what each header contributes: an array of n strings contributes n
  entries, one per value in order; a single non-empty string contributes one entry; the
  empty string and \<^verbatim>\<open>undefined\<close> contribute none, because of the guard
  \<^verbatim>\<open>if (values)\<close>.
\<close>

theorem createRemixHeaders_preserves_multiplicity:
  "distinct (map (\<lambda>h. toLowerCase (fst h)) requestHeaders) \<Longrightarrow>
     createRemixHeaders requestHeaders = concat (map spec_entries requestHeaders)"
  using createRemixHeaders_loop [of requestHeaders "[]"] by (simp add: createRemixHeaders_def)

text \<open>The example of the specification: two entries for \<^verbatim>\<open>x-a\<close>, one for \<^verbatim>\<open>x-b\<close>.\<close>

theorem createRemixHeaders_example:
  "createRemixHeaders [(''x-a'', Multi [''1'', ''2'']), (''x-b'', Single ''v'')]
     = [(''x-a'', ''1''), (''x-a'', ''2''), (''x-b'', ''v'')]"
  using createRemixHeaders_preserves_multiplicity
    [of "[(''x-a'', Multi [''1'', ''2'']), (''x-b'', Single ''v'')]"]
  by (simp add: toLowerCase_def toLowerCase_char_def)

text \<open>
  The claim as stated fails for a header whose single value is the empty string: it
  yields no entry.
\<close>

theorem createRemixHeaders_drops_empty_value:
  "createRemixHeaders [(''x-b'', Single [])] = []"
  by (simp add: createRemixHeaders_def)

section \<open>Cancellation\<close>

lemma run_listener_length: "length (run_listener ev c cs) = length cs"
  by (cases "(ev, c, cs)" rule: run_listener.cases) auto

lemma run_listeners_length: "length (fold (run_listener ev) calls cs) = length cs"
  by (induction calls arbitrary: cs) (simp_all add: run_listener_length)

lemma run_listener_keeps: "i < length cs \<Longrightarrow> cs ! i \<Longrightarrow> run_listener ev c cs ! i"
proof (cases "(ev, c, cs)" rule: run_listener.cases)
  case (1 event ev' c' cs')
  assume "i < length cs" and "cs ! i"
  then show ?thesis using 1 by (cases "c' = i") simp_all
qed simp_all

lemma run_listeners_keep:
  "i < length cs \<Longrightarrow> cs ! i \<Longrightarrow> fold (run_listener ev) calls cs ! i"
  by (induction calls arbitrary: cs) (simp_all add: run_listener_keeps run_listener_length)

lemma run_listeners_abort:
  "On ev (Abort c) \<in> set calls \<Longrightarrow> c < length cs \<Longrightarrow> fold (run_listener ev) calls cs ! c"
proof (induction calls arbitrary: cs)
  case Nil
  then show ?case by simp
next
  case (Cons x calls)
  show ?case
  proof (cases "x = On ev (Abort c)")
    case True
    then have "run_listener ev x cs ! c" using Cons.prems(2) by simp
    then show ?thesis
      using Cons.prems(2) by (simp add: run_listeners_keep run_listener_length)
  next
    case False
    then have "On ev (Abort c) \<in> set calls" using Cons.prems(1) by simp
    then show ?thesis
      using Cons.IH [of "run_listener ev x cs"] Cons.prems(2)
      by (simp add: run_listener_length)
  qed
qed

text \<open>
  Claim C9. The request translator creates a new abort controller, whose signal has not
  fired, and registers on the outbound response a \<^verbatim>\<open>close\<close> listener that aborts the
  controller; the canonical request, when the constructor builds it, carries that
  controller's signal. From then on, whatever further calls the response receives and
  whatever controllers are created, a \<^verbatim>\<open>close\<close> event on the response fires that signal.
\<close>

theorem createRemixRequest_arms_cancellation:
  "createRemixRequest pf request w = (result, w') \<Longrightarrow>
     (\<forall>remixRequest. result = Inr remixRequest \<longrightarrow>
        req_signal remixRequest = length (controllers w))
   \<and> \<not> aborted w' (length (controllers w))
   \<and> On ''close'' (Abort (length (controllers w))) \<in> set (response w')
   \<and> (\<forall>w''. (\<exists>more. response w'' = response w' @ more)
             \<and> length (controllers w') \<le> length (controllers w'')
          \<longrightarrow> aborted (emit ''close'' w'') (length (controllers w)))"
proof -
  assume eq: "createRemixRequest pf request w = (result, w')"
  have sig: "req_signal r = length (controllers w)" if "result = Inr r" for r
    using eq that
    by (auto simp: createRemixRequest_def init_of_def NodeRequest_def Let_def
        split: sum.splits option.splits if_splits)
  have w': "w' = w\<lparr>controllers := controllers w @ [False],
                    response := response w @ [On ''close'' (Abort (length (controllers w)))]\<rparr>"
    using eq by (simp add: createRemixRequest_def Let_def)
  have fires: "aborted (emit ''close'' w'') (length (controllers w))"
    if "\<exists>more. response w'' = response w' @ more"
      "length (controllers w') \<le> length (controllers w'')" for w''
    using that
    by (auto simp: w' aborted_def emit_def run_listeners_length intro!: run_listeners_abort)
  show ?thesis
    using sig fires by (auto simp: w' aborted_def nth_append)
qed

text \<open>In the concrete deployment: the signal is silent until the connection closes.\<close>

theorem close_fires_signal_example:
  "(\<exists>r. fst (createRemixRequest ex_platform ex_request ex_world) = Inr r \<and> req_signal r = 0)
   \<and> \<not> aborted (snd (createRemixRequest ex_platform ex_request ex_world)) 0
   \<and> aborted (emit ''close'' (snd (createRemixRequest ex_platform ex_request ex_world))) 0"
proof -
  obtain res w' where eq: "createRemixRequest ex_platform ex_request ex_world = (res, w')"
    by fastforce
  have url: "ex_parse_url ''https://example.org/posts?page=2'' = Inr ''https://example.org/posts?page=2''"
    by (simp add: ex_parse_url_def)
  obtain r where r: "res = Inr r"
    using eq
    by (auto simp: createRemixRequest_def init_of_def NodeRequest_def Let_def url
        ex_platform_def ex_request_def toUpperCase_def toUpperCase_char_def)
  have c: "length (controllers ex_world) = 0" by (simp add: ex_world_def)
  note armed = createRemixRequest_arms_cancellation [OF eq, unfolded c]
  have s: "req_signal r = 0" using armed r by blast
  have silent: "\<not> aborted w' 0" using armed by blast
  have "(\<exists>more. response w' = response w' @ more)
      \<and> length (controllers w') \<le> length (controllers w')" by simp
  then have "aborted (emit ''close'' w') 0" using armed by blast
  with silent s r show ?thesis by (simp add: eq)
qed

section \<open>The handler\<close>

subsection \<open>Strings and constants\<close>

lemma one_year: "numeral_string (1 * 365 * 24 * 60 * 60) = ''31536000''"
  by (simp add: numeral_string.simps digit_def)

lemma one_hour: "numeral_string (1 * 60 * 60) = ''3600''"
  by (simp add: numeral_string.simps digit_def)



subsection \<open>The three ways through the handler\<close>

lemma serveStaticAssets_miss:
  "fst (serveStaticAssets built public request resp) = None \<Longrightarrow>
     serveStaticAssets built public request resp = (None, resp)"
  by (auto simp: serveStaticAssets_def Let_def split: if_splits option.splits)

lemma serveStaticAssets_built:
  "startsWith (path request) ''/build'' \<Longrightarrow>
   directory_get built (replace (path request) ''/build'' []) = Some a \<Longrightarrow>
   serveStaticAssets built public request resp =
     (Some (if cached a then SendResult else PipeResult),
      resp @ [Header ''Cache-Control'' ''max-age=31536000'' None,
              if cached a then Send (Some (content a)) else Pipe (content a)])"
  using one_year by (simp add: serveStaticAssets_def Let_def)

lemma serveStaticAssets_public:
  "\<not> startsWith (path request) ''/build'' \<Longrightarrow>
   directory_get public (path request) = Some a \<Longrightarrow>
   serveStaticAssets built public request resp =
     (Some (if cached a then SendResult else PipeResult),
      resp @ [Header ''Cache-Control'' ''max-age=3600'' None,
              if cached a then Send (Some (content a)) else Pipe (content a)])"
  using one_hour by (simp add: serveStaticAssets_def Let_def)

text \<open>Resolving the build touches the module cache and nothing of the exchange.\<close>

lemma resolve_build_frame:
  "response (snd (resolve_build opts pf w)) = response w"
  "controllers (snd (resolve_build opts pf w)) = controllers w"
  "engine_calls (snd (resolve_build opts pf w)) = engine_calls w"
  "disk (snd (resolve_build opts pf w)) = disk w"
  by (auto simp: resolve_build_def import_build_def Let_def split: option.splits sum.splits)

lemma handler_resolution_fails:
  "resolve_build opts pf w = (Inl e, w1) \<Longrightarrow>
     createRequestHandler opts pf request w = (Inr (Caught e), w1)"
  by (simp add: createRequestHandler_def try_block_def Let_def)

lemma handler_serves:
  "resolve_build opts pf w = (Inr h, w3) \<Longrightarrow> opt_serveStaticAssets opts \<noteq> Some False \<Longrightarrow>
   serveStaticAssets (builtAssets pf) (publicAssets pf) request (response w3) = (Some r, resp) \<Longrightarrow>
     createRequestHandler opts pf request w = (Inr r, w3\<lparr>response := resp\<rparr>)"
  by (auto simp: createRequestHandler_def try_block_def Let_def split: option.splits)

lemma handler_renders:
  "resolve_build opts pf w = (Inr h, w3) \<Longrightarrow>
   opt_serveStaticAssets opts = Some False
     \<or> fst (serveStaticAssets (builtAssets pf) (publicAssets pf) request (response w3)) = None \<Longrightarrow>
     createRequestHandler opts pf request w =
       (case render opts pf h request w3 of
          (Inl e, w') \<Rightarrow> (Inr (Caught e), w')
        | (Inr r, w') \<Rightarrow> (Inr r, w'))"
  by (auto simp: createRequestHandler_def try_block_def Let_def split: option.splits
      dest: serveStaticAssets_miss)

text \<open>The concrete deployment resolves its build.\<close>

lemma ex_resolves:
  "\<exists>h w3. resolve_build ex_options ex_platform ex_world = (Inr h, w3)"
  by (simp add: resolve_build_def import_build_def ex_options_def ex_platform_def ex_world_def
      ex_disk_def ex_resolve_def Let_def)

subsection \<open>Static assets\<close>

text \<open>
  Claim C7. When the request path starts with \<^verbatim>\<open>/build\<close> and the built-assets index
  has an asset for the rest of the path, the asset block calls
  \<^verbatim>\<open>header("Cache-Control", "max-age=31536000")\<close> and then sends or pipes the asset,
  and the response thereafter holds exactly that one \<^verbatim>\<open>Cache-Control\<close> line. When the
  path does not start with \<^verbatim>\<open>/build\<close> and the public-assets index has an asset for it,
  the same holds with \<^verbatim>\<open>max-age=3600\<close>. Whenever the build resolves, static assets are
  served and the asset block finds an asset, the handler returns with exactly the calls of
  the asset block made on the response. The two numbers are the decimal numerals of
  \<^verbatim>\<open>1 * 365 * 24 * 60 * 60\<close> and of \<^verbatim>\<open>1 * 60 * 60\<close>.
\<close>

theorem static_assets_cache_control:
  "(startsWith (path request) ''/build''
      \<and> directory_get built (replace (path request) ''/build'' []) = Some a
    \<longrightarrow> snd (serveStaticAssets built public request resp) =
          resp @ [Header ''Cache-Control'' ''max-age=31536000'' None,
                  if cached a then Send (Some (content a)) else Pipe (content a)]
        \<and> filter (\<lambda>(n, v). n = ''Cache-Control'')
               (response_headers (snd (serveStaticAssets built public request resp)))
             = [(''Cache-Control'', ''max-age=31536000'')])
   \<and> (\<not> startsWith (path request) ''/build''
      \<and> directory_get public (path request) = Some a
    \<longrightarrow> snd (serveStaticAssets built public request resp) =
          resp @ [Header ''Cache-Control'' ''max-age=3600'' None,
                  if cached a then Send (Some (content a)) else Pipe (content a)]
        \<and> filter (\<lambda>(n, v). n = ''Cache-Control'')
               (response_headers (snd (serveStaticAssets built public request resp)))
             = [(''Cache-Control'', ''max-age=3600'')])
   \<and> (resolve_build opts pf w = (Inr handleRequest, w3)
      \<and> opt_serveStaticAssets opts \<noteq> Some False
      \<and> fst (serveStaticAssets (builtAssets pf) (publicAssets pf) request (response w)) = Some r
    \<longrightarrow> createRequestHandler opts pf request w =
          (Inr r, w3\<lparr>response :=
             snd (serveStaticAssets (builtAssets pf) (publicAssets pf) request (response w))\<rparr>))
   \<and> numeral_string (1 * 365 * 24 * 60 * 60) = ''31536000''
   \<and> numeral_string (1 * 60 * 60) = ''3600''"
proof -
  have hdr: "\<And>calls v c. \<not> (\<exists>n x o'. c = Header n x o') \<Longrightarrow>
      filter (\<lambda>(n, v). n = ''Cache-Control'')
        (response_headers (calls @ [Header ''Cache-Control'' v None, c])) = [(''Cache-Control'', v)]"
  proof -
    fix calls v c assume "\<not> (\<exists>n x o'. c = Header n x o')"
    then have "apply_header c = (\<lambda>hs. hs)" by (cases c) auto
    then have "response_headers (calls @ [Header ''Cache-Control'' v None, c]) =
        filter (\<lambda>(n, _). n \<noteq> ''Cache-Control'') (response_headers calls) @ [(''Cache-Control'', v)]"
      by (simp add: response_headers_def)
    then show "filter (\<lambda>(n, v). n = ''Cache-Control'')
        (response_headers (calls @ [Header ''Cache-Control'' v None, c])) = [(''Cache-Control'', v)]"
      by (auto simp: filter_empty_conv)
  qed
  have built: "snd (serveStaticAssets built public request resp) =
          resp @ [Header ''Cache-Control'' ''max-age=31536000'' None,
                  if cached a then Send (Some (content a)) else Pipe (content a)]"
    if "startsWith (path request) ''/build''"
      "directory_get built (replace (path request) ''/build'' []) = Some a"
    using serveStaticAssets_built [OF that] by simp
  have pub: "snd (serveStaticAssets built public request resp) =
          resp @ [Header ''Cache-Control'' ''max-age=3600'' None,
                  if cached a then Send (Some (content a)) else Pipe (content a)]"
    if "\<not> startsWith (path request) ''/build''"
      "directory_get public (path request) = Some a"
    using serveStaticAssets_public [OF that] by simp
  have handler: "createRequestHandler opts pf request w =
          (Inr r, w3\<lparr>response :=
             snd (serveStaticAssets (builtAssets pf) (publicAssets pf) request (response w))\<rparr>)"
    if rb: "resolve_build opts pf w = (Inr handleRequest, w3)"
      and on: "opt_serveStaticAssets opts \<noteq> Some False"
      and hit: "fst (serveStaticAssets (builtAssets pf) (publicAssets pf) request (response w)) = Some r"
  proof -
    have w3: "response w3 = response w"
      using resolve_build_frame(1) [of opts pf w] rb by simp
    have "serveStaticAssets (builtAssets pf) (publicAssets pf) request (response w3) =
        (Some r, snd (serveStaticAssets (builtAssets pf) (publicAssets pf) request (response w)))"
      using hit w3 by (simp add: prod_eq_iff)
    from handler_serves [OF rb on this] show ?thesis .
  qed
  show ?thesis
    using built pub handler one_year one_hour by (auto simp: hdr)
qed

text \<open>
  In the concrete deployment: the built asset is sent from memory with the lifetime of a
  year and the handler returns; the public file is piped with the lifetime of an hour.
\<close>

theorem static_assets_cache_control_example:
  "createRequestHandler ex_options ex_platform (ex_request\<lparr>path := ''/build/entry.js''\<rparr>) ex_world
     = (Inr SendResult,
        ex_world\<lparr>handlers_created := [(ServerBuild ''v1'', None)],
                 response := [Header ''Cache-Control'' ''max-age=31536000'' None, Send (Some ''entry'')]\<rparr>)
   \<and> snd (serveStaticAssets (builtAssets ex_platform) (publicAssets ex_platform)
            (ex_request\<lparr>path := ''/favicon.ico''\<rparr>) [])
     = [Header ''Cache-Control'' ''max-age=3600'' None, Pipe ''icon'']"
proof -
  let ?b = "ex_request\<lparr>path := ''/build/entry.js''\<rparr>" and ?p = "ex_request\<lparr>path := ''/favicon.ico''\<rparr>"
  have rb: "resolve_build ex_options ex_platform ex_world
      = (Inr (ex_engine (ServerBuild ''v1'') None),
         ex_world\<lparr>handlers_created := [(ServerBuild ''v1'', None)]\<rparr>)"
    by (simp add: resolve_build_def import_build_def purgeRequireCache_def delete_key_def
        ex_options_def ex_platform_def ex_world_def ex_disk_def ex_resolve_def Let_def)
  have on: "opt_serveStaticAssets ex_options \<noteq> Some False" by (simp add: ex_options_def)
  have b: "startsWith (path ?b) ''/build''
      \<and> directory_get (builtAssets ex_platform) (replace (path ?b) ''/build'' [])
          = Some \<lparr>cached = True, content = ''entry''\<rparr>"
    by (simp add: directory_get_def builtAssets_def LiveDirectory_def ex_platform_def)
  have p: "\<not> startsWith (path ?p) ''/build''
      \<and> directory_get (publicAssets ex_platform) (path ?p)
          = Some \<lparr>cached = False, content = ''icon''\<rparr>"
    by (simp add: directory_get_def publicAssets_def LiveDirectory_def ex_platform_def)
  have hit: "fst (serveStaticAssets (builtAssets ex_platform) (publicAssets ex_platform) ?b
      (response ex_world)) = Some SendResult"
    using serveStaticAssets_built [of ?b "builtAssets ex_platform" _ "publicAssets ex_platform" "response ex_world"] b
    by simp
  note t = static_assets_cache_control [where request = ?b and built = "builtAssets ex_platform"
      and public = "publicAssets ex_platform" and resp = "response ex_world"
      and a = "\<lparr>cached = True, content = ''entry''\<rparr>"
      and opts = ex_options and pf = ex_platform and w = ex_world and r = SendResult
      and handleRequest = "ex_engine (ServerBuild ''v1'') None"
      and ?w3.0 = "ex_world\<lparr>handlers_created := [(ServerBuild ''v1'', None)]\<rparr>"]
  note u = static_assets_cache_control [where request = ?p and built = "builtAssets ex_platform"
      and public = "publicAssets ex_platform" and resp = "[]"
      and a = "\<lparr>cached = False, content = ''icon''\<rparr>"]
  show ?thesis using t u rb on b p hit by (simp add: ex_world_def)
qed






subsection \<open>Rendering\<close>

lemma handler_never_throws: "\<exists>r. fst (createRequestHandler opts pf request w) = Inr r"
  by (auto simp: createRequestHandler_def Let_def split: prod.splits sum.splits)

lemma import_fails_resolve_fails:
  "fst (import_build pf (build opts) w) = Inl e \<Longrightarrow> \<exists>w1. resolve_build opts pf w = (Inl e, w1)"
  by (cases "import_build pf (build opts) w") (auto simp: resolve_build_def Let_def)

lemma createRemixRequest_frame:
  "response (snd (createRemixRequest pf request w)) =
     response w @ [On ''close'' (Abort (length (controllers w)))]"
  "engine_calls (snd (createRemixRequest pf request w)) = engine_calls w"
  "require_cache (snd (createRemixRequest pf request w)) = require_cache w"
  "handlers_created (snd (createRemixRequest pf request w)) = handlers_created w"
  by (simp_all add: createRemixRequest_def Let_def)

lemma render_unfold:
  "render opts pf h request w =
     (case fst (createRemixRequest pf request w) of
        Inl e \<Rightarrow> (Inl e, snd (createRemixRequest pf request w))
      | Inr rr \<Rightarrow>
          (case call_getLoadContext opts request of
             Inl e \<Rightarrow> (Inl e, snd (createRemixRequest pf request w))
           | Inr c \<Rightarrow>
               (case h rr c of
                  Inl e \<Rightarrow>
                    (Inl e, (snd (createRemixRequest pf request w))
                       \<lparr>engine_calls := engine_calls (snd (createRemixRequest pf request w))
                            @ [(rr, c)]\<rparr>)
                | Inr nr \<Rightarrow>
                    (case fst (sendRemixResponse
                                 (response (snd (createRemixRequest pf request w))) nr) of
                       Inl e \<Rightarrow> Inl e | Inr _ \<Rightarrow> Inr Nothing,
                     (snd (createRemixRequest pf request w))
                       \<lparr>engine_calls := engine_calls (snd (createRemixRequest pf request w))
                            @ [(rr, c)],
                        response := snd (sendRemixResponse
                                           (response (snd (createRemixRequest pf request w))) nr)\<rparr>))))"
proof -
  obtain res w1 where c: "createRemixRequest pf request w = (res, w1)" by fastforce
  show ?thesis
    by (cases res; cases "call_getLoadContext opts request")
       (auto simp: render_def c Let_def split: sum.splits prod.splits)
qed

lemma render_translation_fails:
  "fst (createRemixRequest pf request w) = Inl e \<Longrightarrow> fst (render opts pf h request w) = Inl e"
  by (simp add: render_unfold)

lemma render_hook_fails:
  "fst (createRemixRequest pf request w) = Inr rr \<Longrightarrow>
   call_getLoadContext opts request = Inl e \<Longrightarrow> fst (render opts pf h request w) = Inl e"
  by (simp add: render_unfold)

lemma render_engine_fails:
  "fst (createRemixRequest pf request w) = Inr rr \<Longrightarrow>
   call_getLoadContext opts request = Inr c \<Longrightarrow>
   h rr c = Inl e \<Longrightarrow>
     fst (render opts pf h request w) = Inl e"
  by (simp add: render_unfold)

lemma render_send_fails:
  "fst (createRemixRequest pf request w) = Inr rr \<Longrightarrow>
   call_getLoadContext opts request = Inr c \<Longrightarrow>
   h rr c = Inr nr \<Longrightarrow>
   fst (sendRemixResponse (response (snd (createRemixRequest pf request w))) nr) = Inl e \<Longrightarrow>
     fst (render opts pf h request w) = Inl e"
  by (simp add: render_unfold)

lemma render_engine_calls:
  "engine_calls (snd (render opts pf h request w)) =
     (case fst (createRemixRequest pf request w) of
        Inl e \<Rightarrow> engine_calls w
      | Inr rr \<Rightarrow>
          (case call_getLoadContext opts request of
             Inl e \<Rightarrow> engine_calls w
           | Inr c \<Rightarrow> engine_calls w @ [(rr, c)]))"
  by (simp add: render_unfold createRemixRequest_frame split: sum.splits)

lemma render_response:
  "\<exists>rest. response (snd (render opts pf h request w)) =
     response w @ On ''close'' (Abort (length (controllers w))) # rest"
  by (simp add: render_unfold createRemixRequest_frame sendRemixResponse_calls split: sum.splits)

lemma render_frame:
  "require_cache (snd (render opts pf h request w)) = require_cache w"
  "handlers_created (snd (render opts pf h request w)) = handlers_created w"
  by (simp_all add: render_unfold createRemixRequest_frame split: sum.splits)

text \<open>Every run of the handler is one of three: the build does not resolve, an asset is served, or the request is rendered.\<close>

lemma handler_cases:
  obtains (fails) e w1 where "resolve_build opts pf w = (Inl e, w1)"
      "createRequestHandler opts pf request w = (Inr (Caught e), w1)"
    | (serves) h w3 r resp where "resolve_build opts pf w = (Inr h, w3)"
      "createRequestHandler opts pf request w = (Inr r, w3\<lparr>response := resp\<rparr>)"
    | (renders) h w3 where "resolve_build opts pf w = (Inr h, w3)"
      "createRequestHandler opts pf request w =
         (case render opts pf h request w3 of
            (Inl e, w') \<Rightarrow> (Inr (Caught e), w')
          | (Inr r, w') \<Rightarrow> (Inr r, w'))"
proof (cases "resolve_build opts pf w")
  case (Pair res w1)
  show ?thesis
  proof (cases res)
    case (Inl e)
    then show ?thesis using Pair fails handler_resolution_fails by blast
  next
    case (Inr h)
    show ?thesis
    proof (cases "opt_serveStaticAssets opts = Some False
     \<or> fst (serveStaticAssets (builtAssets pf) (publicAssets pf) request (response w1)) = None")
      case True
      then show ?thesis using Pair Inr renders handler_renders by blast
    next
      case False
      then obtain r resp where "serveStaticAssets (builtAssets pf) (publicAssets pf) request (response w1) = (Some r, resp)"
        by (cases "serveStaticAssets (builtAssets pf) (publicAssets pf) request (response w1)") auto
      then show ?thesis using Pair Inr False serves handler_serves by blast
    qed
  qed
qed

lemma handler_frame:
  "require_cache (snd (createRequestHandler opts pf request w)) = require_cache (snd (resolve_build opts pf w))
   \<and> handlers_created (snd (createRequestHandler opts pf request w)) = handlers_created (snd (resolve_build opts pf w))"
proof (rule handler_cases [of opts pf w request])
  fix e w1 assume "resolve_build opts pf w = (Inl e, w1)"
    "createRequestHandler opts pf request w = (Inr (Caught e), w1)"
  then show ?thesis by simp
next
  fix h w3 r resp assume "resolve_build opts pf w = (Inr h, w3)"
      "createRequestHandler opts pf request w = (Inr r, w3\<lparr>response := resp\<rparr>)"
  then show ?thesis by simp
next
  fix h w3 assume a: "resolve_build opts pf w = (Inr h, w3)"
      "createRequestHandler opts pf request w =
         (case render opts pf h request w3 of
            (Inl e, w') \<Rightarrow> (Inr (Caught e), w')
          | (Inr r, w') \<Rightarrow> (Inr r, w'))"
  obtain res w' where r: "render opts pf h request w3 = (res, w')" by fastforce
  have "snd (createRequestHandler opts pf request w) = w'"
    using a(2) r by (cases res) simp_all
  then show ?thesis using render_frame [of opts pf h request w3] r a(1) by simp
qed

subsection \<open>Failures\<close>

text \<open>
  Claim C5. The handler never lets an exception escape: its outcome is always a returned
  value. When the import of the build throws \<^verbatim>\<open>e\<close>, the handler returns \<^verbatim>\<open>e\<close>. When
  the build resolves and no asset is served, the handler returns \<^verbatim>\<open>e\<close> itself whenever
  the request translation throws \<^verbatim>\<open>e\<close>, and, the request being translated, whenever the
  context hook throws \<^verbatim>\<open>e\<close>, whenever the engine, invoked with the translated request
  and the hook's context, throws \<^verbatim>\<open>e\<close>, and whenever translating the engine's response
  fails with \<^verbatim>\<open>e\<close>.
\<close>

theorem handler_returns_every_failure:
  "(\<exists>r. fst (createRequestHandler opts pf request w) = Inr r)
   \<and> (fst (import_build pf (build opts) w) = Inl e
        \<longrightarrow> fst (createRequestHandler opts pf request w) = Inr (Caught e))
   \<and> (resolve_build opts pf w = (Inr handleRequest, w3)
        \<and> (opt_serveStaticAssets opts = Some False
             \<or> fst (serveStaticAssets (builtAssets pf) (publicAssets pf) request (response w3)) = None)
        \<longrightarrow>
          (fst (createRemixRequest pf request w3) = Inl e
             \<longrightarrow> fst (createRequestHandler opts pf request w) = Inr (Caught e))
        \<and> (fst (createRemixRequest pf request w3) = Inr remixRequest
              \<and> call_getLoadContext opts request = Inl e
             \<longrightarrow> fst (createRequestHandler opts pf request w) = Inr (Caught e))
        \<and> (fst (createRemixRequest pf request w3) = Inr remixRequest
              \<and> call_getLoadContext opts request = Inr c
              \<and> handleRequest remixRequest c = Inl e
             \<longrightarrow> fst (createRequestHandler opts pf request w) = Inr (Caught e))
        \<and> (fst (createRemixRequest pf request w3) = Inr remixRequest
              \<and> call_getLoadContext opts request = Inr c
              \<and> handleRequest remixRequest c = Inr nodeResponse
              \<and> fst (sendRemixResponse (response (snd (createRemixRequest pf request w3))) nodeResponse) = Inl e
             \<longrightarrow> fst (createRequestHandler opts pf request w) = Inr (Caught e)))"
proof -
  have caught: "fst (createRequestHandler opts pf request w) = Inr (Caught e)"
    if rb: "resolve_build opts pf w = (Inr handleRequest, w3)"
      and miss: "opt_serveStaticAssets opts = Some False
             \<or> fst (serveStaticAssets (builtAssets pf) (publicAssets pf) request (response w3)) = None"
      and fails: "fst (render opts pf handleRequest request w3) = Inl e"
  proof -
    obtain w' where "render opts pf handleRequest request w3 = (Inl e, w')"
      using fails by (cases "render opts pf handleRequest request w3") auto
    then show ?thesis using handler_renders [OF rb miss] by simp
  qed
  have imp: "fst (createRequestHandler opts pf request w) = Inr (Caught e)"
    if "fst (import_build pf (build opts) w) = Inl e"
    using import_fails_resolve_fails [OF that] handler_resolution_fails by fastforce
  show ?thesis
    using handler_never_throws [of opts pf request w] imp caught
      render_translation_fails [of pf request w3 e opts handleRequest]
      render_hook_fails [of pf request w3 remixRequest opts e handleRequest]
      render_engine_fails [of pf request w3 remixRequest opts c handleRequest e]
      render_send_fails [of pf request w3 remixRequest opts c handleRequest nodeResponse e]
    by blast
qed

subsection \<open>Falling through to the engine\<close>

text \<open>
  Claim C8, as the code has it. Let the build resolve, and let static assets be switched
  off or the index the asset block consults have nothing for the path (the built-assets
  index for a path starting with \<^verbatim>\<open>/build\<close>, the public-assets index otherwise; so in
  particular when neither index has the path). Then the handler is the rendering steps
  run on the state the resolution left, and the first call the response receives is the
  request translator's. If the request translation builds the canonical request and the
  context hook returns, the engine is invoked once more than before, with that canonical
  request and the hook's context. If the request translation throws, or if the request
  is translated and the context hook throws, the engine is not invoked and the handler
  returns the error thrown.
\<close>

theorem static_miss_reaches_the_engine:
  "resolve_build opts pf w = (Inr handleRequest, w3) \<Longrightarrow>
   opt_serveStaticAssets opts = Some False
     \<or> (if startsWith (path request) ''/build''
         then directory_get (builtAssets pf) (replace (path request) ''/build'' []) = None
         else directory_get (publicAssets pf) (path request) = None) \<Longrightarrow>
     createRequestHandler opts pf request w =
       (case render opts pf handleRequest request w3 of
          (Inl e, w') \<Rightarrow> (Inr (Caught e), w')
        | (Inr r, w') \<Rightarrow> (Inr r, w'))
   \<and> (\<exists>rest. response (snd (createRequestHandler opts pf request w)) =
          response w @ On ''close'' (Abort (length (controllers w))) # rest)
   \<and> (\<forall>remixRequest c.
          fst (createRemixRequest pf request w3) = Inr remixRequest
          \<and> call_getLoadContext opts request = Inr c \<longrightarrow>
            engine_calls (snd (createRequestHandler opts pf request w)) =
              engine_calls w @ [(remixRequest, c)])
   \<and> (\<forall>e. fst (createRemixRequest pf request w3) = Inl e \<longrightarrow>
          engine_calls (snd (createRequestHandler opts pf request w)) = engine_calls w
          \<and> fst (createRequestHandler opts pf request w) = Inr (Caught e))
   \<and> (\<forall>remixRequest e.
          fst (createRemixRequest pf request w3) = Inr remixRequest
          \<and> call_getLoadContext opts request = Inl e \<longrightarrow>
            engine_calls (snd (createRequestHandler opts pf request w)) = engine_calls w
            \<and> fst (createRequestHandler opts pf request w) = Inr (Caught e))"
proof -
  assume rb: "resolve_build opts pf w = (Inr handleRequest, w3)"
    and miss: "opt_serveStaticAssets opts = Some False
     \<or> (if startsWith (path request) ''/build''
         then directory_get (builtAssets pf) (replace (path request) ''/build'' []) = None
         else directory_get (publicAssets pf) (path request) = None)"
  have miss': "opt_serveStaticAssets opts = Some False
     \<or> fst (serveStaticAssets (builtAssets pf) (publicAssets pf) request (response w3)) = None"
    using miss by (auto simp: serveStaticAssets_def Let_def split: if_splits)
  note h = handler_renders [OF rb miss']
  obtain res w' where r: "render opts pf handleRequest request w3 = (res, w')" by fastforce
  have s: "snd (createRequestHandler opts pf request w) = w'"
    using h r by (cases res) simp_all
  have f: "fst (createRequestHandler opts pf request w) =
      (case res of Inl e \<Rightarrow> Inr (Caught e) | Inr r \<Rightarrow> Inr r)"
    using h r by (cases res) simp_all
  have w3: "response w3 = response w" "controllers w3 = controllers w"
    "engine_calls w3 = engine_calls w"
    using resolve_build_frame [of opts pf w] rb by simp_all
  have resp: "\<exists>rest. response (snd (createRequestHandler opts pf request w)) =
          response w @ On ''close'' (Abort (length (controllers w))) # rest"
    using render_response [of opts pf handleRequest request w3] r s w3 by simp
  have calls: "engine_calls (snd (createRequestHandler opts pf request w)) =
     (case fst (createRemixRequest pf request w3) of
        Inl e \<Rightarrow> engine_calls w
      | Inr rr \<Rightarrow>
          (case call_getLoadContext opts request of
             Inl e \<Rightarrow> engine_calls w
           | Inr c \<Rightarrow> engine_calls w @ [(rr, c)]))"
    using render_engine_calls [of opts pf handleRequest request w3] r s w3
    by (simp split: sum.splits)
  have tr: "fst (createRequestHandler opts pf request w) = Inr (Caught e)"
    if "fst (createRemixRequest pf request w3) = Inl e" for e
    using render_translation_fails [OF that, of opts handleRequest] r f by simp
  have hook: "fst (createRequestHandler opts pf request w) = Inr (Caught e)"
    if "fst (createRemixRequest pf request w3) = Inr rr"
      "call_getLoadContext opts request = Inl e" for rr e
    using render_hook_fails [OF that, of handleRequest] r f by simp
  show ?thesis using h resp calls tr hook by (simp split: sum.splits)
qed

subsection \<open>Module cache\<close>

text \<open>The loop of \<^verbatim>\<open>purgeRequireCache\<close>, after any list of keys has been visited.\<close>

lemma purge_loop:
  "fold (\<lambda>key c. if startsWith key b then delete_key key c else c) ks cache
     = filter (\<lambda>(k, _). \<not> (k \<in> set ks \<and> startsWith k b)) cache"
proof (induction ks arbitrary: cache)
  case Nil
  then show ?case by simp
next
  case (Cons k ks)
  have "(if startsWith k b then delete_key k cache else cache)
      = filter (\<lambda>(k', _). \<not> (k' = k \<and> startsWith k' b)) cache"
    by (auto simp: delete_key_def intro: filter_cong)
  then show ?case
    by (auto simp: Cons.IH intro!: filter_cong)
qed

lemma purgeRequireCache_filter:
  "purgeRequireCache b cache = filter (\<lambda>(key, _). \<not> startsWith key b) cache"
  unfolding purgeRequireCache_def purge_loop
  by (rule filter_cong) force+

lemma import_build_hit:
  "map_of (require_cache w) (resolve pf specifier) = Some m \<Longrightarrow>
     import_build pf specifier w = (Inr m, w)"
  by (simp add: import_build_def)

lemma import_build_miss:
  "map_of (require_cache w) (resolve pf specifier) = None \<Longrightarrow>
     fst (import_build pf specifier w) = disk w (resolve pf specifier)"
  by (simp add: import_build_def Let_def split: sum.splits)

lemma import_build_caches:
  "fst (import_build pf specifier w) = Inr m \<Longrightarrow>
     map_of (require_cache (snd (import_build pf specifier w))) (resolve pf specifier) = Some m"
  by (auto simp: import_build_def Let_def map_of_append map_add_def split: option.splits sum.splits)

lemma resolve_build_ok:
  "fst (import_build pf (build opts) w) = Inr b \<Longrightarrow>
     handlers_created (snd (resolve_build opts pf w)) =
       handlers_created w @
         [(b, if (case mode opts of None \<Rightarrow> node_env pf | Some x \<Rightarrow> Some x) = Some ''production''
              then Some ''production'' else None)]
   \<and> require_cache (snd (resolve_build opts pf w)) =
       (if opt_purgeRequireCache opts \<noteq> Some False
           \<and> (case mode opts of None \<Rightarrow> node_env pf | Some x \<Rightarrow> Some x) \<noteq> Some ''production''
        then filter (\<lambda>(key, _). \<not> startsWith key (build opts))
               (require_cache (snd (import_build pf (build opts) w)))
        else require_cache (snd (import_build pf (build opts) w)))"
proof -
  assume a: "fst (import_build pf (build opts) w) = Inr b"
  obtain w1 where i: "import_build pf (build opts) w = (Inr b, w1)"
    using a by (cases "import_build pf (build opts) w") auto
  have h: "handlers_created w1 = handlers_created w"
    using i by (auto simp: import_build_def Let_def split: option.splits sum.splits)
  show ?thesis
    by (auto simp: resolve_build_def i h Let_def purgeRequireCache_filter split: option.splits)
qed


lemma map_of_kept_by_purge:
  "\<not> startsWith k b \<Longrightarrow>
     map_of (filter (\<lambda>(key, _). \<not> startsWith key b) cache) k = map_of cache k"
  by (induction cache) auto

text \<open>
  Claim C6, as the code has it. Let the import of the build succeed on a request. Outside
  production, with purging enabled, the cache the request leaves is the cache the import
  left without the keys that start with the build string. If the build's own file name
  starts with the build string, then from any later state with that cache the import of
  the build returns what the disk holds at that time, and the handler creates the
  engine's request handler from it; if the file name does not start with the build
  string, the build stays in the cache and the later import returns it again, whatever
  the disk holds. In production the cache the request leaves is the one the import left,
  it holds the build under its file name, and from any later state with that cache the
  import returns the same build without touching the cache, whatever the disk holds, and
  the handler creates the engine's request handler from that same build.
\<close>

theorem module_cache_purged_outside_production:
  "fst (import_build pf (build opts) w) = Inr b \<Longrightarrow>
     ((case mode opts of None \<Rightarrow> node_env pf | Some x \<Rightarrow> Some x) \<noteq> Some ''production''
        \<and> opt_purgeRequireCache opts \<noteq> Some False
      \<longrightarrow>
        require_cache (snd (createRequestHandler opts pf request w)) =
          filter (\<lambda>(key, _). \<not> startsWith key (build opts))
            (require_cache (snd (import_build pf (build opts) w)))
      \<and> (startsWith (resolve pf (build opts)) (build opts) \<longrightarrow>
           (\<forall>w2 request2.
               require_cache w2 = require_cache (snd (createRequestHandler opts pf request w)) \<longrightarrow>
                 fst (import_build pf (build opts) w2) = disk w2 (resolve pf (build opts))
               \<and> (\<forall>b2. disk w2 (resolve pf (build opts)) = Inr b2 \<longrightarrow>
                      handlers_created (snd (createRequestHandler opts pf request2 w2)) =
                        handlers_created w2 @ [(b2, None)])))
      \<and> (\<not> startsWith (resolve pf (build opts)) (build opts) \<longrightarrow>
           (\<forall>w2 request2.
               require_cache w2 = require_cache (snd (createRequestHandler opts pf request w)) \<longrightarrow>
                 import_build pf (build opts) w2 = (Inr b, w2)
               \<and> handlers_created (snd (createRequestHandler opts pf request2 w2)) =
                   handlers_created w2 @ [(b, None)])))
   \<and> ((case mode opts of None \<Rightarrow> node_env pf | Some x \<Rightarrow> Some x) = Some ''production''
      \<longrightarrow>
        require_cache (snd (createRequestHandler opts pf request w)) =
          require_cache (snd (import_build pf (build opts) w))
      \<and> map_of (require_cache (snd (createRequestHandler opts pf request w)))
           (resolve pf (build opts)) = Some b
      \<and> (\<forall>w2 request2.
             require_cache w2 = require_cache (snd (createRequestHandler opts pf request w)) \<longrightarrow>
               import_build pf (build opts) w2 = (Inr b, w2)
             \<and> handlers_created (snd (createRequestHandler opts pf request2 w2)) =
                 handlers_created w2 @ [(b, Some ''production'')]
             \<and> require_cache (snd (createRequestHandler opts pf request2 w2)) = require_cache w2))"
proof -
  assume ok: "fst (import_build pf (build opts) w) = Inr b"
  let ?m = "case mode opts of None \<Rightarrow> node_env pf | Some x \<Rightarrow> Some x"
  let ?w' = "snd (createRequestHandler opts pf request w)"
  note first = resolve_build_ok [OF ok] handler_frame [of opts pf request w]
  have dev: "require_cache ?w' = filter (\<lambda>(key, _). \<not> startsWith key (build opts))
            (require_cache (snd (import_build pf (build opts) w)))"
    if "?m \<noteq> Some ''production''" "opt_purgeRequireCache opts \<noteq> Some False"
    using first that by simp
  have dev2: "fst (import_build pf (build opts) w2) = disk w2 (resolve pf (build opts))
               \<and> (\<forall>b2. disk w2 (resolve pf (build opts)) = Inr b2 \<longrightarrow>
                      handlers_created (snd (createRequestHandler opts pf request2 w2)) =
                        handlers_created w2 @ [(b2, None)])"
    if np: "?m \<noteq> Some ''production''" and p: "opt_purgeRequireCache opts \<noteq> Some False"
      and under: "startsWith (resolve pf (build opts)) (build opts)"
      and same: "require_cache w2 = require_cache ?w'" for w2 request2
  proof -
    have "resolve pf (build opts) \<notin> fst ` set (require_cache w2)"
      using dev [OF np p] same under by auto
    then have miss: "map_of (require_cache w2) (resolve pf (build opts)) = None"
      by (simp add: map_of_eq_None_iff)
    have load: "fst (import_build pf (build opts) w2) = disk w2 (resolve pf (build opts))"
      by (rule import_build_miss [OF miss])
    have "handlers_created (snd (createRequestHandler opts pf request2 w2)) =
                        handlers_created w2 @ [(b2, None)]"
      if "disk w2 (resolve pf (build opts)) = Inr b2" for b2
      using resolve_build_ok [of pf opts w2 b2] handler_frame [of opts pf request2 w2] load that np
      by simp
    then show ?thesis using load by blast
  qed
  have dev3: "import_build pf (build opts) w2 = (Inr b, w2)
               \<and> handlers_created (snd (createRequestHandler opts pf request2 w2)) =
                   handlers_created w2 @ [(b, None)]"
    if np: "?m \<noteq> Some ''production''" and p: "opt_purgeRequireCache opts \<noteq> Some False"
      and out: "\<not> startsWith (resolve pf (build opts)) (build opts)"
      and same: "require_cache w2 = require_cache ?w'" for w2 request2
  proof -
    have "require_cache w2 = filter (\<lambda>(key, _). \<not> startsWith key (build opts))
            (require_cache (snd (import_build pf (build opts) w)))"
      using dev [OF np p] same by simp
    then have "map_of (require_cache w2) (resolve pf (build opts)) = Some b"
      unfolding map_of_kept_by_purge [OF out] by (simp add: map_of_kept_by_purge [OF out]
          import_build_caches [OF ok])
    then have hit: "import_build pf (build opts) w2 = (Inr b, w2)"
      by (rule import_build_hit)
    then have "fst (import_build pf (build opts) w2) = Inr b" by simp
    from resolve_build_ok [OF this] handler_frame [of opts pf request2 w2] np hit
    show ?thesis by simp
  qed
  have prod: "require_cache ?w' = require_cache (snd (import_build pf (build opts) w))"
    if "?m = Some ''production''"
    using first that by simp
  have prod1: "map_of (require_cache ?w') (resolve pf (build opts)) = Some b"
    if "?m = Some ''production''"
    using prod [OF that] import_build_caches [OF ok] by simp
  have prod2: "import_build pf (build opts) w2 = (Inr b, w2)
             \<and> handlers_created (snd (createRequestHandler opts pf request2 w2)) =
                 handlers_created w2 @ [(b, Some ''production'')]
             \<and> require_cache (snd (createRequestHandler opts pf request2 w2)) = require_cache w2"
    if pr: "?m = Some ''production''" and same: "require_cache w2 = require_cache ?w'"
    for w2 request2
  proof -
    have hit: "import_build pf (build opts) w2 = (Inr b, w2)"
      using import_build_hit [of w2 pf "build opts" b] prod1 [OF pr] same by simp
    then have "fst (import_build pf (build opts) w2) = Inr b" by simp
    from resolve_build_ok [OF this] handler_frame [of opts pf request2 w2] pr hit
    show ?thesis by simp
  qed
  show ?thesis using dev dev2 dev3 prod prod1 prod2 by blast
qed

subsection \<open>The concrete deployment, run\<close>

lemmas ex_defs = ex_options_def ex_platform_def ex_world_def ex_disk_def ex_request_def
  ex_engine_def ex_resolve_def

lemma ex_import:
  "fst (import_build ex_platform (build ex_options) ex_world) = Inr (ServerBuild ''v1'')"
  "fst (import_build ex_platform (build (ex_options\<lparr>mode := Some ''production''\<rparr>)) ex_world)
     = Inr (ServerBuild ''v1'')"
  "fst (import_build ex_platform (build (ex_options\<lparr>build := ''./build''\<rparr>)) ex_world)
     = Inr (ServerBuild ''v1'')"
  by (simp_all add: import_build_def ex_defs Let_def)

text \<open>
  Two requests with the build rewritten in between: outside production the second request
  is rendered by the new build, in production by the old one.
\<close>

theorem module_reload_example:
  "handlers_created (snd (createRequestHandler ex_options ex_platform ex_request
       ((snd (createRequestHandler ex_options ex_platform ex_request ex_world))
          \<lparr>disk := ex_disk ''v2'', response := []\<rparr>)))
     = [(ServerBuild ''v1'', None), (ServerBuild ''v2'', None)]
   \<and> handlers_created (snd (createRequestHandler (ex_options\<lparr>mode := Some ''production''\<rparr>)
       ex_platform ex_request
       ((snd (createRequestHandler (ex_options\<lparr>mode := Some ''production''\<rparr>)
                ex_platform ex_request ex_world))
          \<lparr>disk := ex_disk ''v2'', response := []\<rparr>)))
     = [(ServerBuild ''v1'', Some ''production''), (ServerBuild ''v1'', Some ''production'')]"
proof -
  let ?dev = "ex_options" and ?prod = "ex_options\<lparr>mode := Some ''production''\<rparr>"
  define w2 where "w2 = (snd (createRequestHandler ?dev ex_platform ex_request ex_world))
          \<lparr>disk := ex_disk ''v2'', response := []\<rparr>"
  define w2p where "w2p = (snd (createRequestHandler ?prod ex_platform ex_request ex_world))
          \<lparr>disk := ex_disk ''v2'', response := []\<rparr>"
  have h1: "handlers_created (snd (createRequestHandler ?dev ex_platform ex_request ex_world))
      = [(ServerBuild ''v1'', None)]"
    using resolve_build_ok [OF ex_import(1)] handler_frame [of ?dev ex_platform ex_request ex_world]
    by (simp add: ex_defs)
  have h1p: "handlers_created (snd (createRequestHandler ?prod ex_platform ex_request ex_world))
      = [(ServerBuild ''v1'', Some ''production'')]"
    using resolve_build_ok [OF ex_import(2)] handler_frame [of ?prod ex_platform ex_request ex_world]
    by (simp add: ex_defs)
  have np: "(case mode ?dev of None \<Rightarrow> node_env ex_platform | Some x \<Rightarrow> Some x) \<noteq> Some ''production''
      \<and> opt_purgeRequireCache ?dev \<noteq> Some False
      \<and> startsWith (resolve ex_platform (build ?dev)) (build ?dev)"
    by (simp add: ex_defs)
  have pr: "(case mode ?prod of None \<Rightarrow> node_env ex_platform | Some x \<Rightarrow> Some x) = Some ''production''"
    by simp
  have d2: "disk w2 (resolve ex_platform (build ?dev)) = Inr (ServerBuild ''v2'')"
    by (simp add: w2_def ex_defs)
  have same: "require_cache w2 = require_cache (snd (createRequestHandler ?dev ex_platform ex_request ex_world))"
    "require_cache w2p = require_cache (snd (createRequestHandler ?prod ex_platform ex_request ex_world))"
    by (simp_all add: w2_def w2p_def)
  have "handlers_created (snd (createRequestHandler ?dev ex_platform ex_request w2))
      = handlers_created w2 @ [(ServerBuild ''v2'', None)]"
    using module_cache_purged_outside_production [OF ex_import(1), of ex_request] np same(1) d2 by blast
  moreover have "handlers_created (snd (createRequestHandler ?prod ex_platform ex_request w2p))
      = handlers_created w2p @ [(ServerBuild ''v1'', Some ''production'')]"
    using module_cache_purged_outside_production [OF ex_import(2), of ex_request] pr same(2) by blast
  ultimately show ?thesis by (simp add: h1 h1p w2_def w2p_def)
qed

text \<open>
  The claim as stated fails when the build is named by a relative path: outside
  production and with purging enabled, \<^verbatim>\<open>./build\<close> is loaded from
  \<^verbatim>\<open>/app/build/index.js\<close>, a key that does not start with \<^verbatim>\<open>./build\<close> and is
  therefore not purged; the build is rewritten on disk, and the second request is still
  rendered by the first build.
\<close>

theorem relative_build_path_is_never_reloaded:
  "mode (ex_options\<lparr>build := ''./build''\<rparr>) = None
   \<and> node_env ex_platform = Some ''development''
   \<and> opt_purgeRequireCache (ex_options\<lparr>build := ''./build''\<rparr>) = None
   \<and> ex_disk ''v2'' (resolve ex_platform ''./build'') = Inr (ServerBuild ''v2'')
   \<and> handlers_created (snd (createRequestHandler (ex_options\<lparr>build := ''./build''\<rparr>)
       ex_platform ex_request
       ((snd (createRequestHandler (ex_options\<lparr>build := ''./build''\<rparr>)
                ex_platform ex_request ex_world))
          \<lparr>disk := ex_disk ''v2'', response := []\<rparr>)))
     = [(ServerBuild ''v1'', None), (ServerBuild ''v1'', None)]"
proof -
  define rel where "rel = ex_options\<lparr>build := ''./build''\<rparr>"
  define w1 where "w1 = snd (createRequestHandler rel ex_platform ex_request ex_world)"
  define w2 where "w2 = w1\<lparr>disk := ex_disk ''v2'', response := []\<rparr>"
  have b: "build rel = ''./build''"
    and m: "(case mode rel of None \<Rightarrow> node_env ex_platform | Some x \<Rightarrow> Some x)
        = Some ''development''"
    and key: "resolve ex_platform ''./build'' = ''/app/build/index.js''"
    by (simp_all add: rel_def ex_options_def ex_platform_def ex_resolve_def)
  have rb1: "snd (resolve_build rel ex_platform ex_world) =
      ex_world\<lparr>require_cache := [(''/app/build/index.js'', ServerBuild ''v1'')],
               handlers_created := [(ServerBuild ''v1'', None)]\<rparr>"
    by (simp add: rel_def resolve_build_def import_build_def purgeRequireCache_def
        delete_key_def ex_defs Let_def)
  have first: "handlers_created w1 = [(ServerBuild ''v1'', None)]"
    "require_cache w1 = [(''/app/build/index.js'', ServerBuild ''v1'')]"
    using handler_frame [of rel ex_platform ex_request ex_world]
    by (simp_all add: w1_def rb1)
  have hit: "import_build ex_platform (build rel) w2 = (Inr (ServerBuild ''v1''), w2)"
    by (rule import_build_hit) (simp add: w2_def first b key)
  then have i2: "fst (import_build ex_platform (build rel) w2) = Inr (ServerBuild ''v1'')"
    by simp
  have "handlers_created (snd (createRequestHandler rel ex_platform ex_request w2))
      = [(ServerBuild ''v1'', None), (ServerBuild ''v1'', None)]"
    using resolve_build_ok [OF i2] handler_frame [of rel ex_platform ex_request w2]
    by (simp add: m w2_def first)
  then show ?thesis
    unfolding w2_def w1_def rel_def
    by (simp add: ex_options_def ex_platform_def ex_disk_def ex_resolve_def)
qed

lemma ex_misses:
  "fst (serveStaticAssets (builtAssets (ex_platform\<lparr>createRemixRequestHandler := f\<rparr>))
        (publicAssets (ex_platform\<lparr>createRemixRequestHandler := f\<rparr>))
        (ex_request\<lparr>hostname := hn\<rparr>) resp) = None"
  "fst (serveStaticAssets (builtAssets ex_platform) (publicAssets ex_platform) ex_request resp) = None"
  "directory_get (builtAssets ex_platform) (replace (path ex_request) ''/build'' []) = None"
  "directory_get (publicAssets ex_platform) (path ex_request) = None"
  "\<not> startsWith (path ex_request) ''/build''"
  by (simp_all add: serveStaticAssets_def directory_get_def builtAssets_def publicAssets_def
      LiveDirectory_def ex_defs)

text \<open>What the request translator makes of the request of the deployment, whatever its path.\<close>

lemma ex_translated:
  "parse_url pf = ex_parse_url \<Longrightarrow>
     fst (createRemixRequest pf (ex_request\<lparr>path := p\<rparr>) w) =
       Inr \<lparr>req_url = ''https://example.org/posts?page=2'', req_method = ''POST'',
            req_headers = [(''x-a'', ''1''), (''x-a'', ''2''), (''x-b'', ''v'')],
            req_signal = length (controllers w),
            req_body = Some (Readable [''title=hello''] Done)\<rparr>"
  by (simp add: createRemixRequest_def init_of_def NodeRequest_def Let_def ex_parse_url_def
      ex_request_def toUpperCase_def toUpperCase_char_def createRemixHeaders_def
      headers_append_def headers_set_def toLowerCase_def toLowerCase_char_def)

lemma ex_untranslatable:
  "parse_url pf = ex_parse_url \<Longrightarrow>
     fst (createRemixRequest pf (ex_request\<lparr>hostname := ''a b''\<rparr>) w) = Inl (Error ''Invalid URL'')"
  by (simp add: createRemixRequest_def init_of_def NodeRequest_def Let_def ex_parse_url_def
      ex_request_def)

lemma ex_request_path: "ex_request\<lparr>path := ''/posts''\<rparr> = ex_request"
  by (simp add: ex_request_def)

text \<open>
  A build that cannot be found, a host that is no host, a hook that throws, an engine
  that throws, and a page whose stream breaks off: each error comes back as the handler's
  value.
\<close>

theorem handler_returns_failure_example:
  "fst (createRequestHandler (ex_options\<lparr>build := ''/missing''\<rparr>) ex_platform ex_request ex_world)
     = Inr (Caught (Error ''MODULE_NOT_FOUND''))
   \<and> fst (createRequestHandler ex_options ex_platform (ex_request\<lparr>hostname := ''a b''\<rparr>) ex_world)
     = Inr (Caught (Error ''Invalid URL''))
   \<and> fst (createRequestHandler (ex_options\<lparr>getLoadContext := Some ex_failing_hook\<rparr>)
        ex_platform ex_request ex_world)
     = Inr (Caught (Error ''no session''))
   \<and> fst (createRequestHandler ex_options
        (ex_platform\<lparr>createRemixRequestHandler := (\<lambda>b env r c. Inl (Error ''loader crashed''))\<rparr>)
        ex_request ex_world)
     = Inr (Caught (Error ''loader crashed''))
   \<and> fst (createRequestHandler ex_options
        (ex_platform\<lparr>createRemixRequestHandler := (\<lambda>b env r c.
           Inr \<lparr>status = 200, statusText = ''OK'', res_headers = [],
                res_body = Some (Readable [''<html>''] (Failed (Error ''ECONNRESET'')))\<rparr>)\<rparr>)
        ex_request ex_world)
     = Inr (Caught (Error ''ECONNRESET''))"
proof -
  let ?o1 = "ex_options\<lparr>build := ''/missing''\<rparr>"
  let ?o2 = "ex_options\<lparr>getLoadContext := Some ex_failing_hook\<rparr>"
  let ?bad = "ex_request\<lparr>hostname := ''a b''\<rparr>"
  let ?h3 = "\<lambda>(r :: remix_request) (c :: load_context option).
      (Inl (Error ''loader crashed'') :: error + node_response)"
  let ?nr = "\<lparr>status = 200, statusText = ''OK'', res_headers = [],
                res_body = Some (Readable [''<html>''] (Failed (Error ''ECONNRESET'')))\<rparr>"
  let ?h4 = "\<lambda>(r :: remix_request) (c :: load_context option). (Inr ?nr :: error + node_response)"
  let ?p3 = "ex_platform\<lparr>createRemixRequestHandler := (\<lambda>b env. ?h3)\<rparr>"
  let ?p4 = "ex_platform\<lparr>createRemixRequestHandler := (\<lambda>b env. ?h4)\<rparr>"
  let ?w3 = "ex_world\<lparr>handlers_created := [(ServerBuild ''v1'', None)]\<rparr>"
  let ?rr = "\<lparr>req_url = ''https://example.org/posts?page=2'', req_method = ''POST'',
            req_headers = [(''x-a'', ''1''), (''x-a'', ''2''), (''x-b'', ''v'')],
            req_signal = length (controllers ?w3),
            req_body = Some (Readable [''title=hello''] Done)\<rparr>"
  have i: "fst (import_build ex_platform (build ?o1) ex_world) = Inl (Error ''MODULE_NOT_FOUND'')"
    by (simp add: import_build_def ex_defs Let_def)
  obtain h0 w0 where rb0: "resolve_build ex_options ex_platform ex_world = (Inr h0, w0)"
    using ex_resolves by blast
  obtain h w3 where rb: "resolve_build ?o2 ex_platform ex_world = (Inr h, w3)"
    by (simp add: resolve_build_def import_build_def ex_defs Let_def)
  have rb3: "resolve_build ex_options ?p3 ex_world = (Inr ?h3, ?w3)"
    by (simp add: resolve_build_def import_build_def purgeRequireCache_def delete_key_def
        ex_defs Let_def)
  have rb4: "resolve_build ex_options ?p4 ex_world = (Inr ?h4, ?w3)"
    by (simp add: resolve_build_def import_build_def purgeRequireCache_def delete_key_def
        ex_defs Let_def)
  have pu: "parse_url ex_platform = ex_parse_url" "parse_url ?p3 = ex_parse_url"
    "parse_url ?p4 = ex_parse_url"
    by (simp_all add: ex_platform_def)
  have tr0: "fst (createRemixRequest ex_platform ?bad w0) = Inl (Error ''Invalid URL'')"
    by (rule ex_untranslatable [OF pu(1)])
  obtain rr where tr: "fst (createRemixRequest ex_platform ex_request w3) = Inr rr"
    using ex_translated [OF pu(1), of "''/posts''" w3] by (simp add: ex_request_path)
  have tr3: "fst (createRemixRequest ?p3 ex_request ?w3) = Inr ?rr"
    using ex_translated [OF pu(2), of "''/posts''" ?w3] by (simp add: ex_request_path)
  have tr4: "fst (createRemixRequest ?p4 ex_request ?w3) = Inr ?rr"
    using ex_translated [OF pu(3), of "''/posts''" ?w3] by (simp add: ex_request_path)
  have miss0: "fst (serveStaticAssets (builtAssets ex_platform) (publicAssets ex_platform)
        ?bad (response w0)) = None"
    using ex_misses(1) [of ex_engine "''a b''" "response w0"] by (simp add: ex_platform_def)
  have hook: "call_getLoadContext ?o2 ex_request = Inl (Error ''no session'')"
    "call_getLoadContext ex_options ex_request = Inr None"
    by (simp_all add: call_getLoadContext_def ex_options_def ex_failing_hook_def)
  have send: "fst (sendRemixResponse (response (snd (createRemixRequest ?p4 ex_request ?w3))) ?nr)
      = Inl (Error ''ECONNRESET'')"
    by (simp add: sendRemixResponse_result)
  have "fst (createRequestHandler ?o1 ex_platform ex_request ex_world)
     = Inr (Caught (Error ''MODULE_NOT_FOUND''))"
    using handler_returns_every_failure [where opts = ?o1 and pf = ex_platform and w = ex_world
        and request = ex_request and e = "Error ''MODULE_NOT_FOUND''"] i by blast
  moreover have "fst (createRequestHandler ex_options ex_platform ?bad ex_world)
     = Inr (Caught (Error ''Invalid URL''))"
    using handler_returns_every_failure [where opts = ex_options and pf = ex_platform
        and w = ex_world and request = ?bad and e = "Error ''Invalid URL''"
        and handleRequest = h0 and ?w3.0 = w0] rb0 tr0 miss0
    by blast
  moreover have "fst (createRequestHandler ?o2 ex_platform ex_request ex_world)
     = Inr (Caught (Error ''no session''))"
    using handler_returns_every_failure [where opts = ?o2 and pf = ex_platform and w = ex_world
        and request = ex_request and e = "Error ''no session''" and handleRequest = h
        and ?w3.0 = w3 and remixRequest = rr] rb tr hook(1) ex_misses(2)
    by blast
  moreover have "fst (createRequestHandler ex_options ?p3 ex_request ex_world)
     = Inr (Caught (Error ''loader crashed''))"
    using handler_returns_every_failure [where opts = ex_options and pf = ?p3 and w = ex_world
        and request = ex_request and e = "Error ''loader crashed''" and handleRequest = ?h3
        and ?w3.0 = ?w3 and c = None and remixRequest = ?rr] rb3 tr3 hook(2)
      ex_misses(1) [of "\<lambda>b env. ?h3" "hostname ex_request" "response ?w3"]
    by (simp add: ex_request_def)
  moreover have "fst (createRequestHandler ex_options ?p4 ex_request ex_world)
     = Inr (Caught (Error ''ECONNRESET''))"
    using handler_returns_every_failure [where opts = ex_options and pf = ?p4 and w = ex_world
        and request = ex_request and e = "Error ''ECONNRESET''" and handleRequest = ?h4
        and ?w3.0 = ?w3 and c = None and nodeResponse = ?nr and remixRequest = ?rr]
      rb4 tr4 hook(2) ex_misses(1) [of "\<lambda>b env. ?h4" "hostname ex_request" "response ?w3"] send
    by (simp add: ex_request_def)
  ultimately show ?thesis by blast
qed

text \<open>
  \<^verbatim>\<open>/posts\<close> is no asset, and with static assets switched off not even
  \<^verbatim>\<open>/build/entry.js\<close> is looked up: the engine receives the translated request.
\<close>

theorem static_miss_example:
  "engine_calls (snd (createRequestHandler ex_options ex_platform ex_request ex_world))
     = [(\<lparr>req_url = ''https://example.org/posts?page=2'', req_method = ''POST'',
         req_headers = [(''x-a'', ''1''), (''x-a'', ''2''), (''x-b'', ''v'')],
         req_signal = 0, req_body = Some (Readable [''title=hello''] Done)\<rparr>, None)]
   \<and> engine_calls (snd (createRequestHandler (ex_options\<lparr>opt_serveStaticAssets := Some False\<rparr>)
        ex_platform (ex_request\<lparr>path := ''/build/entry.js''\<rparr>) ex_world))
     = [(\<lparr>req_url = ''https://example.org/posts?page=2'', req_method = ''POST'',
         req_headers = [(''x-a'', ''1''), (''x-a'', ''2''), (''x-b'', ''v'')],
         req_signal = 0, req_body = Some (Readable [''title=hello''] Done)\<rparr>, None)]"
proof -
  let ?off = "ex_options\<lparr>opt_serveStaticAssets := Some False\<rparr>"
  let ?asset = "ex_request\<lparr>path := ''/build/entry.js''\<rparr>"
  obtain h w3 where rb: "resolve_build ex_options ex_platform ex_world = (Inr h, w3)"
    using ex_resolves by blast
  obtain h' w3' where rb': "resolve_build ?off ex_platform ex_world = (Inr h', w3')"
    by (simp add: resolve_build_def import_build_def ex_defs Let_def)
  have miss: "opt_serveStaticAssets ex_options = Some False
     \<or> (if startsWith (path ex_request) ''/build''
         then directory_get (builtAssets ex_platform) (replace (path ex_request) ''/build'' []) = None
         else directory_get (publicAssets ex_platform) (path ex_request) = None)"
    using ex_misses by simp
  have off: "opt_serveStaticAssets ?off = Some False
     \<or> (if startsWith (path ?asset) ''/build''
         then directory_get (builtAssets ex_platform) (replace (path ?asset) ''/build'' []) = None
         else directory_get (publicAssets ex_platform) (path ?asset) = None)"
    by simp
  have hook: "call_getLoadContext ex_options ex_request = Inr None"
    "call_getLoadContext ?off ?asset = Inr None"
    by (simp_all add: call_getLoadContext_def ex_options_def)
  have c: "controllers w3 = []" "controllers w3' = []"
    using resolve_build_frame(2) [of ex_options ex_platform ex_world]
      resolve_build_frame(2) [of ?off ex_platform ex_world] rb rb'
    by (simp_all add: ex_world_def)
  have pu: "parse_url ex_platform = ex_parse_url" by (simp add: ex_platform_def)
  note tr = ex_translated [OF pu, of "''/posts''" w3, unfolded ex_request_path c]
    ex_translated [OF pu, of "''/build/entry.js''" w3', unfolded c]
  have "engine_calls (snd (createRequestHandler ex_options ex_platform ex_request ex_world))
      = engine_calls ex_world @
          [(\<lparr>req_url = ''https://example.org/posts?page=2'', req_method = ''POST'',
             req_headers = [(''x-a'', ''1''), (''x-a'', ''2''), (''x-b'', ''v'')],
             req_signal = length ([] :: bool list),
             req_body = Some (Readable [''title=hello''] Done)\<rparr>, None)]"
    using static_miss_reaches_the_engine [OF rb miss] hook(1) tr(1) by blast
  moreover have "engine_calls (snd (createRequestHandler ?off ex_platform ?asset ex_world))
      = engine_calls ex_world @
          [(\<lparr>req_url = ''https://example.org/posts?page=2'', req_method = ''POST'',
             req_headers = [(''x-a'', ''1''), (''x-a'', ''2''), (''x-b'', ''v'')],
             req_signal = length ([] :: bool list),
             req_body = Some (Readable [''title=hello''] Done)\<rparr>, None)]"
    using static_miss_reaches_the_engine [OF rb' off] hook(2) tr(2) by blast
  ultimately show ?thesis by (simp add: ex_world_def)
qed

text \<open>
  The claim as stated fails when a step between the asset block and the engine throws.
  \<^verbatim>\<open>/posts\<close> is in neither index, and yet the engine is not invoked when the context
  hook throws, with static assets served or switched off; nor is it invoked, with no hook
  at all, when the client names a host from which no URL can be made.
\<close>

theorem failing_hook_skips_the_engine:
  "directory_get (builtAssets ex_platform) (replace (path ex_request) ''/build'' []) = None
   \<and> directory_get (publicAssets ex_platform) (path ex_request) = None
   \<and> engine_calls (snd (createRequestHandler
        (ex_options\<lparr>getLoadContext := Some ex_failing_hook\<rparr>)
        ex_platform ex_request ex_world)) = []
   \<and> engine_calls (snd (createRequestHandler
        (ex_options\<lparr>getLoadContext := Some ex_failing_hook,
                     opt_serveStaticAssets := Some False\<rparr>)
        ex_platform ex_request ex_world)) = []
   \<and> getLoadContext ex_options = None
   \<and> path (ex_request\<lparr>hostname := ''a b''\<rparr>) = path ex_request
   \<and> engine_calls (snd (createRequestHandler ex_options ex_platform
        (ex_request\<lparr>hostname := ''a b''\<rparr>) ex_world)) = []"
proof -
  let ?o1 = "ex_options\<lparr>getLoadContext := Some ex_failing_hook\<rparr>"
  let ?o2 = "ex_options\<lparr>getLoadContext := Some ex_failing_hook,
                     opt_serveStaticAssets := Some False\<rparr>"
  let ?bad = "ex_request\<lparr>hostname := ''a b''\<rparr>"
  obtain h0 w0 where rb0: "resolve_build ex_options ex_platform ex_world = (Inr h0, w0)"
    using ex_resolves by blast
  obtain h1 w1 where rb1: "resolve_build ?o1 ex_platform ex_world = (Inr h1, w1)"
    by (simp add: resolve_build_def import_build_def ex_defs Let_def)
  obtain h2 w2 where rb2: "resolve_build ?o2 ex_platform ex_world = (Inr h2, w2)"
    by (simp add: resolve_build_def import_build_def ex_defs Let_def)
  have e1: "engine_calls w0 = []" "engine_calls w1 = []" "engine_calls w2 = []"
    using resolve_build_frame(3) [of ex_options ex_platform ex_world]
      resolve_build_frame(3) [of ?o1 ex_platform ex_world]
      resolve_build_frame(3) [of ?o2 ex_platform ex_world] rb0 rb1 rb2
    by (simp_all add: ex_world_def)
  have hook: "call_getLoadContext ?o1 ex_request = Inl (Error ''no session'')"
    "call_getLoadContext ?o2 ex_request = Inl (Error ''no session'')"
    by (simp_all add: call_getLoadContext_def ex_failing_hook_def)
  have pu: "parse_url ex_platform = ex_parse_url" by (simp add: ex_platform_def)
  have r1: "engine_calls (snd (render ?o1 ex_platform h1 ex_request w1)) = []"
    "engine_calls (snd (render ?o2 ex_platform h2 ex_request w2)) = []"
    "engine_calls (snd (render ex_options ex_platform h0 ?bad w0)) = []"
    by (simp_all add: render_engine_calls hook e1 ex_untranslatable [OF pu] split: sum.splits)
  have miss0: "fst (serveStaticAssets (builtAssets ex_platform) (publicAssets ex_platform)
        ?bad (response w0)) = None"
    using ex_misses(1) [of ex_engine "''a b''" "response w0"] by (simp add: ex_platform_def)
  have "engine_calls (snd (createRequestHandler ?o1 ex_platform ex_request ex_world)) = []"
    using handler_renders [OF rb1, of ex_request] ex_misses(2) r1(1)
    by (cases "render ?o1 ex_platform h1 ex_request w1") (auto split: sum.splits)
  moreover have "engine_calls (snd (createRequestHandler ?o2 ex_platform ex_request ex_world)) = []"
    using handler_renders [OF rb2, of ex_request] r1(2)
    by (cases "render ?o2 ex_platform h2 ex_request w2") (auto split: sum.splits)
  moreover have "engine_calls (snd (createRequestHandler ex_options ex_platform ?bad ex_world)) = []"
    using handler_renders [OF rb0, of ?bad] miss0 r1(3)
    by (cases "render ex_options ex_platform h0 ?bad w0") (auto split: sum.splits)
  ultimately show ?thesis using ex_misses by (simp add: ex_options_def)
qed

end
